theory Spec2Isabelle
  imports Main "HOL-Library.Word"
begin

unbundle bit_operations_syntax

section \<open>Basic types\<close>

text \<open>
  Go's \<open>[]byte\<close> is a list of 8-bit words, \<open>int64\<close> a 64-bit word read as two's
  complement, and a Go \<open>string\<close> an Isabelle \<open>string\<close> (a list of 8-bit characters).
  The conversion \<open>[]byte(s)\<close> is written out.
\<close>

type_synonym byte = "8 word"
type_synonym bytes = "byte list"
type_synonym int64 = "64 word"

definition to_bytes :: "string \<Rightarrow> bytes" where
  "to_bytes s = map (\<lambda>c. of_nat (of_char c)) s"

section \<open>Functions of Go's standard library\<close>

text \<open>
  \<open>strings.Split(s, sep)\<close> for a separator of one character: the pieces between the
  occurrences of the separator, one more than there are occurrences (so the empty string
  gives one empty piece). \<open>strings.HasPrefix\<close> compares the first characters.
\<close>

fun Split :: "string \<Rightarrow> char \<Rightarrow> string list" where
  "Split [] sep = [[]]"
| "Split (c # cs) sep =
     (if c = sep then [] # Split cs sep
      else (case Split cs sep of [] \<Rightarrow> [[c]] | part # parts \<Rightarrow> (c # part) # parts))"

definition HasPrefix :: "string \<Rightarrow> string \<Rightarrow> bool" where
  "HasPrefix s prefix = (length prefix \<le> length s \<and> take (length prefix) s = prefix)"

text \<open>The verb \<open>%d\<close> of \<open>fmt.Sprintf\<close>: decimal digits, with a minus sign for a negative number.\<close>

fun decimal :: "nat \<Rightarrow> string" where
  "decimal n = (if n < 10 then [''0123456789'' ! n] else decimal (n div 10) @ [''0123456789'' ! (n mod 10)])"

declare decimal.simps [simp del]

definition format_int :: "int \<Rightarrow> string" where
  "format_int i = (if i < 0 then ''-'' @ decimal (nat (- i)) else decimal (nat i))"

text \<open>
  \<open>strings.Contains\<close>, and \<open>strings.ToUpper\<close> on ASCII letters (characters outside ASCII are
  left as they are here; the methods of HTTP are ASCII).
\<close>

fun Contains :: "string \<Rightarrow> string \<Rightarrow> bool" where
  "Contains [] substr = (substr = [])"
| "Contains (c # cs) substr = (HasPrefix (c # cs) substr \<or> Contains cs substr)"

definition ToUpper :: "string \<Rightarrow> string" where
  "ToUpper s =
     map (\<lambda>c. let n = (of_char c :: nat) in if 97 \<le> n \<and> n \<le> 122 then char_of (n - 32) else c) s"

section \<open>L1 ABCI application\<close>

subsection \<open>Library functions the application calls\<close>

text \<open>
  \<open>hex.EncodeToString\<close> of Go's standard library: two characters of the lower-case table
  per byte, the high nibble first.
\<close>

definition hextable :: string where
  "hextable = ''0123456789abcdef''"

definition EncodeToString :: "bytes \<Rightarrow> string" where
  "EncodeToString src =
     concat (map (\<lambda>v. [hextable ! unat (drop_bit 4 v), hextable ! unat (v AND 0x0f)]) src)"

text \<open>
  \<open>json.Unmarshal\<close> and \<open>sha256.Sum256\<close> are library functions as well. They are taken as
  parameters of the model: \<open>unmarshal\<close> returns the decoded request or the error text,
  \<open>sha\<close> the digest. Nothing below depends on what they compute.
\<close>

subsection \<open>Data\<close>

text \<open>
  \<open>ShardedCommitRequest\<close> of the L1 repository. \<open>SessionData\<close> is the decoded JSON object
  \<open>map[string]interface{}\<close>, which the L1 never inspects: its type is left open.
\<close>

record 'd ShardedCommitRequest =
  ShardID :: string
  ClientGroup :: string
  SessionID :: string
  OperatorID :: string
  SessionData :: 'd
  L2NodeID :: string
  Timestamp :: nat

text \<open>The parts of the ABCI types that the application fills in.\<close>

record EventAttribute =
  Key :: string
  Value :: string
  Index :: bool

record Event =
  EventType :: string
  Attributes :: "EventAttribute list"

record ExecTxResult =
  Code :: nat
  Data :: bytes
  Log :: string
  Events :: "Event list"

subsection \<open>The ledger store's write transaction\<close>

text \<open>
  A Badger write transaction is the list of its pending writes, oldest first. \<open>Txn.Set\<close>
  returns an error or records the write. When the store refuses a write is the store's
  business (key or value size, size of the transaction): it is the parameter \<open>rej\<close>, which
  sees the pending writes, the key and the value and returns the error text, if any. A read
  inside the transaction sees the latest pending write of the key.
\<close>

type_synonym txn = "(bytes \<times> bytes) list"

definition txn_Set ::
  "(txn \<Rightarrow> bytes \<Rightarrow> bytes \<Rightarrow> string option) \<Rightarrow> txn \<Rightarrow> bytes \<Rightarrow> bytes \<Rightarrow> string option \<times> txn" where
  "txn_Set rej t k v = (case rej t k v of Some e \<Rightarrow> (Some e, t) | None \<Rightarrow> (None, t @ [(k, v)]))"


subsection \<open>Helper functions\<close>

definition generateTxID :: "(bytes \<Rightarrow> bytes) \<Rightarrow> string \<Rightarrow> string \<Rightarrow> string" where
  "generateTxID sha sessionID shardID = EncodeToString (sha (to_bytes (sessionID @ shardID)))"

definition calculateAppHash :: "(bytes \<Rightarrow> bytes) \<Rightarrow> ExecTxResult list \<Rightarrow> bytes" where
  "calculateAppHash sha txResults = sha (foldl (\<lambda>allData result. allData @ Data result) [] txResults)"

text \<open>
  \<open>int64ToBytes\<close>: eight bytes, most significant first. \<open>i >> k\<close> on an \<open>int64\<close> is
  the arithmetic shift, \<open>byte(_)\<close> keeps the low eight bits.
\<close>

definition int64ToBytes :: "int64 \<Rightarrow> bytes" where
  "int64ToBytes i =
     [ucast (signed_drop_bit 56 i), ucast (signed_drop_bit 48 i),
      ucast (signed_drop_bit 40 i), ucast (signed_drop_bit 32 i),
      ucast (signed_drop_bit 24 i), ucast (signed_drop_bit 16 i),
      ucast (signed_drop_bit 8 i), ucast i]"

text \<open>
  \<open>bytesToInt64\<close>: the guard on the length comes first, so no index is read out of
  range; \<open>int64(buf[k])\<close> extends the unsigned byte with zeros.
\<close>

definition bytesToInt64 :: "bytes \<Rightarrow> int64" where
  "bytesToInt64 buf =
     (if length buf < 8 then 0
      else push_bit 56 (ucast (buf ! 0)) OR push_bit 48 (ucast (buf ! 1)) OR
           push_bit 40 (ucast (buf ! 2)) OR push_bit 32 (ucast (buf ! 3)) OR
           push_bit 24 (ucast (buf ! 4)) OR push_bit 16 (ucast (buf ! 5)) OR
           push_bit 8 (ucast (buf ! 6)) OR ucast (buf ! 7))"

text \<open>
  \<open>storeShardCommit\<close>: a failed write of the \<open>tx:\<close> key ends the function with code 3; a
  failed write of the other two keys is logged only and the function goes on.
\<close>

definition storeShardCommit ::
  "(txn \<Rightarrow> bytes \<Rightarrow> bytes \<Rightarrow> string option) \<Rightarrow> txn \<Rightarrow> string \<Rightarrow> 'd ShardedCommitRequest \<Rightarrow> string \<Rightarrow> bytes
     \<Rightarrow> ExecTxResult \<times> txn" where
  "storeShardCommit rej t txID shardCommit status rawTx =
     (let txKey = to_bytes ''tx:'' @ to_bytes txID in
      case txn_Set rej t txKey rawTx of
        (Some err, t1) \<Rightarrow>
          (\<lparr>Code = 3, Data = [], Log = ''Database error: '' @ err, Events = []\<rparr>, t1)
      | (None, t1) \<Rightarrow>
          (let shardKey = ''shard:'' @ ShardID shardCommit @ '':session:'' @ SessionID shardCommit;
               (err2, t2) = txn_Set rej t1 (to_bytes shardKey) rawTx;
               statusKey = to_bytes ''status:'' @ to_bytes txID;
               (err3, t3) = txn_Set rej t2 statusKey (to_bytes status);
               events = [\<lparr>EventType = ''l1_shard_commit'',
                          Attributes =
                            [\<lparr>Key = ''session_id'', Value = SessionID shardCommit, Index = True\<rparr>,
                             \<lparr>Key = ''shard_id'', Value = ShardID shardCommit, Index = True\<rparr>,
                             \<lparr>Key = ''client_group'', Value = ClientGroup shardCommit, Index = True\<rparr>,
                             \<lparr>Key = ''tx_id'', Value = txID, Index = True\<rparr>,
                             \<lparr>Key = ''status'', Value = status, Index = True\<rparr>]\<rparr>]
           in (\<lparr>Code = 0, Data = to_bytes txID, Log = status, Events = events\<rparr>, t3)))"

subsection \<open>FinalizeBlock and Commit\<close>

record FinalizeBlockRequest =
  Txs :: "bytes list"
  Height :: int64

record FinalizeBlockResponse =
  TxResults :: "ExecTxResult list"
  AppHash :: bytes

record Application =
  badgerDB :: "bytes \<rightharpoonup> bytes"
  onGoingBlock :: "txn option"

text \<open>
  The body of the loop of \<open>FinalizeBlock\<close> for one transaction, and the loop itself. The
  results are in the order of the transactions (\<open>txResults[i]\<close> belongs to \<open>req.Txs[i]\<close>),
  and the write transaction is threaded through.
\<close>

definition FinalizeBlock_tx ::
  "(bytes \<Rightarrow> string + 'd ShardedCommitRequest) \<Rightarrow> (bytes \<Rightarrow> bytes) \<Rightarrow>
   (txn \<Rightarrow> bytes \<Rightarrow> bytes \<Rightarrow> string option) \<Rightarrow> txn \<Rightarrow> bytes \<Rightarrow> ExecTxResult \<times> txn" where
  "FinalizeBlock_tx unmarshal sha rej t txBytes =
     (case unmarshal txBytes of
        Inl err \<Rightarrow> (\<lparr>Code = 1, Data = [], Log = ''Invalid shard commit format'', Events = []\<rparr>, t)
      | Inr shardCommit \<Rightarrow>
          (let txID = generateTxID sha (SessionID shardCommit) (ShardID shardCommit)
           in storeShardCommit rej t txID shardCommit ''accepted'' txBytes))"

fun FinalizeBlock_txs ::
  "(bytes \<Rightarrow> string + 'd ShardedCommitRequest) \<Rightarrow> (bytes \<Rightarrow> bytes) \<Rightarrow>
   (txn \<Rightarrow> bytes \<Rightarrow> bytes \<Rightarrow> string option) \<Rightarrow> txn \<Rightarrow> bytes list \<Rightarrow> ExecTxResult list \<times> txn" where
  "FinalizeBlock_txs unmarshal sha rej t [] = ([], t)"
| "FinalizeBlock_txs unmarshal sha rej t (txBytes # rest) =
     (let (r, t1) = FinalizeBlock_tx unmarshal sha rej t txBytes;
          (rs, t2) = FinalizeBlock_txs unmarshal sha rej t1 rest
      in (r # rs, t2))"

text \<open>
  \<open>FinalizeBlock\<close> opens a fresh write transaction, runs the loop, and stores the height
  and the application hash (a failure of either write is logged only). It always returns a
  response and no error.
\<close>

definition FinalizeBlock ::
  "(bytes \<Rightarrow> string + 'd ShardedCommitRequest) \<Rightarrow> (bytes \<Rightarrow> bytes) \<Rightarrow>
   (txn \<Rightarrow> bytes \<Rightarrow> bytes \<Rightarrow> string option) \<Rightarrow> Application \<Rightarrow> FinalizeBlockRequest
     \<Rightarrow> FinalizeBlockResponse \<times> Application" where
  "FinalizeBlock unmarshal sha rej app req =
     (let (txResults, t1) = FinalizeBlock_txs unmarshal sha rej [] (Txs req);
          blockHeight = Height req;
          appHash = calculateAppHash sha txResults;
          (err1, t2) = txn_Set rej t1 (to_bytes ''last_block_height'') (int64ToBytes blockHeight);
          (err2, t3) = txn_Set rej t2 (to_bytes ''last_block_app_hash'') appHash
      in (\<lparr>TxResults = txResults, AppHash = appHash\<rparr>, app\<lparr>onGoingBlock := Some t3\<rparr>))"


section \<open>L2 shard\<close>

subsection \<open>Identifiers\<close>

text \<open>
  The identifiers come from \<open>uuid.New().String()\<close> of the \<open>google/uuid\<close> library. \<open>uuid.New\<close>
  reads 16 random bytes (the argument \<open>rnd\<close> here) and sets the version and variant bits;
  \<open>String\<close> writes the 16 bytes in hexadecimal in groups of 4, 2, 2, 2 and 6 bytes with a
  hyphen between the groups.
\<close>

definition uuid_New :: "bytes \<Rightarrow> bytes" where
  "uuid_New rnd = rnd[6 := (rnd ! 6 AND 0x0f) OR 0x40, 8 := (rnd ! 8 AND 0x3f) OR 0x80]"

definition uuid_String :: "bytes \<Rightarrow> string" where
  "uuid_String u =
     EncodeToString (take 4 u) @ ''-'' @ EncodeToString (take 2 (drop 4 u)) @ ''-'' @
     EncodeToString (take 2 (drop 6 u)) @ ''-'' @ EncodeToString (take 2 (drop 8 u)) @ ''-'' @
     EncodeToString (drop 10 u)"

subsection \<open>Tables\<close>

text \<open>
  The rows of the L2 models, with the columns that the operations read or write. The
  timestamps that the ORM maintains (\<open>created_at\<close>, \<open>updated_at\<close>) and the supplier and item
  tables, which are only read to fill in responses, are left out. A nullable column
  (a pointer field) is an \<open>option\<close>.
\<close>

record L2Session =
  sID :: string
  sOperatorID :: string
  sStatus :: string
  sIsCommitted :: bool
  sPackageID :: "string option"
  sL1TxHash :: "string option"
  sL1BlockHeight :: "int64 option"
  sL1CommitTime :: "nat option"

record Package =
  pID :: string
  pSignature :: string
  pSupplierID :: string
  pStatus :: string
  pIsTrusted :: bool
  pSessionID :: "string option"

record QCRecord =
  qID :: string
  qSessionID :: string
  qPassed :: bool
  qIssues :: string

record Label =
  lID :: string
  lSessionID :: string
  lCourierID :: string
  lTrackingNo :: string

record Courier =
  cID :: string
  cName :: string

text \<open>
  The database: one list of rows per table. A query for the first row with a property
  takes the first such row of the list.
\<close>

record L2DB =
  sessions :: "L2Session list"
  packages :: "Package list"
  qc_records :: "QCRecord list"
  labels :: "Label list"
  couriers :: "Courier list"

record RepositoryError =
  ErrCode :: string
  Message :: string
  Detail :: string

text \<open>
  A statement of an operation can fail for a reason outside the model (connection lost,
  constraint of the schema). \<open>flt = Some k\<close> says that the k-th statement of the operation
  fails so; the text of the driver's error is not modelled and \<open>driver_error\<close> stands for it.
  An operation that fails rolls its transaction back: the database is returned unchanged.
\<close>

type_synonym fault = "nat option"

definition driver_error :: string where
  "driver_error = ''driver error''"

subsection \<open>Repository operations\<close>

definition CreateSession :: "L2DB \<Rightarrow> fault \<Rightarrow> bytes \<Rightarrow> string \<Rightarrow> (RepositoryError + L2Session) \<times> L2DB" where
  "CreateSession db flt rnd operatorID =
     (let sessionID = ''SES-'' @ take 8 (uuid_String (uuid_New rnd));
          session = \<lparr>sID = sessionID, sOperatorID = operatorID, sStatus = ''active'',
                     sIsCommitted = False, sPackageID = None, sL1TxHash = None,
                     sL1BlockHeight = None, sL1CommitTime = None\<rparr>
      in if flt = Some 1 \<or> sessionID \<in> sID ` set (sessions db)
         then (Inl \<lparr>ErrCode = ''CREATE_FAILED'', Message = ''Failed to create session'',
                    Detail = driver_error\<rparr>, db)
         else (Inr session, db\<lparr>sessions := sessions db @ [session]\<rparr>))"

definition GetSession :: "L2DB \<Rightarrow> fault \<Rightarrow> string \<Rightarrow> RepositoryError + L2Session" where
  "GetSession db flt sessionID =
     (if flt = Some 1
      then Inl \<lparr>ErrCode = ''DATABASE_ERROR'', Message = ''Database error'', Detail = driver_error\<rparr>
      else case find (\<lambda>s. sID s = sessionID) (sessions db) of
             None \<Rightarrow> Inl \<lparr>ErrCode = ''NOT_FOUND'', Message = ''Session not found'',
                         Detail = ''Session '' @ sessionID @ '' does not exist''\<rparr>
           | Some session \<Rightarrow> Inr session)"

definition save_package :: "Package \<Rightarrow> Package list \<Rightarrow> Package list" where
  "save_package pkg ps =
     (if pID pkg \<in> pID ` set ps then map (\<lambda>p. if pID p = pID pkg then pkg else p) ps
      else ps @ [pkg])"

definition ScanPackage :: "L2DB \<Rightarrow> fault \<Rightarrow> string \<Rightarrow> string \<Rightarrow> (RepositoryError + Package) \<times> L2DB" where
  "ScanPackage db flt sessionID packageID =
     (if flt = Some 1
      then (Inl \<lparr>ErrCode = ''DATABASE_ERROR'', Message = ''Database error'', Detail = driver_error\<rparr>, db)
      else case find (\<lambda>p. pID p = packageID) (packages db) of
        None \<Rightarrow> (Inl \<lparr>ErrCode = ''NOT_FOUND'', Message = ''Package not found'',
                       Detail = ''Package '' @ packageID @ '' does not exist''\<rparr>, db)
      | Some pkg0 \<Rightarrow>
         (let pkg = pkg0\<lparr>pStatus := ''pending_validation'', pSessionID := Some sessionID\<rparr> in
          if flt = Some 2
          then (Inl \<lparr>ErrCode = ''UPDATE_FAILED'', Message = ''Failed to update package'',
                     Detail = driver_error\<rparr>, db)
          else if flt = Some 3
          then (Inl \<lparr>ErrCode = ''UPDATE_FAILED'', Message = ''Failed to update session'',
                     Detail = driver_error\<rparr>, db)
          else if flt = Some 4
          then (Inl \<lparr>ErrCode = ''COMMIT_FAILED'', Message = ''Failed to commit transaction'',
                     Detail = driver_error\<rparr>, db)
          else (Inr pkg,
                db\<lparr>packages := save_package pkg (packages db),
                   sessions := map (\<lambda>s. if sID s = sessionID then s\<lparr>sPackageID := Some packageID\<rparr> else s)
                                 (sessions db)\<rparr>)))"

definition ValidatePackage ::
  "L2DB \<Rightarrow> fault \<Rightarrow> string \<Rightarrow> string \<Rightarrow> string \<Rightarrow> (RepositoryError + Package) \<times> L2DB" where
  "ValidatePackage db flt signature packageID sessionID =
     (if flt = Some 1
      then (Inl \<lparr>ErrCode = ''DATABASE_ERROR'', Message = ''Database error'', Detail = driver_error\<rparr>, db)
      else case find (\<lambda>p. pID p = packageID) (packages db) of
        None \<Rightarrow> (Inl \<lparr>ErrCode = ''NOT_FOUND'', Message = ''Package not found'',
                       Detail = ''Package '' @ packageID @ '' does not exist''\<rparr>, db)
      | Some pkg0 \<Rightarrow>
         (let pkg = pkg0\<lparr>pIsTrusted := True, pStatus := ''validated'', pSessionID := Some sessionID\<rparr> in
          if flt = Some 2
          then (Inl \<lparr>ErrCode = ''UPDATE_FAILED'', Message = ''Failed to update package'',
                     Detail = driver_error\<rparr>, db)
          else if flt = Some 3
          then (Inl \<lparr>ErrCode = ''COMMIT_FAILED'', Message = ''Failed to commit transaction'',
                     Detail = driver_error\<rparr>, db)
          else (Inr pkg, db\<lparr>packages := save_package pkg (packages db)\<rparr>)))"

text \<open>
  \<open>QualityCheck\<close>. \<open>marshal\<close> is \<open>json.Marshal\<close> on the list of issues (its error is ignored
  by the code). The new row violates a unique constraint when its identifier or its
  session already has a QC record.
\<close>

definition QualityCheck ::
  "(string list \<Rightarrow> string) \<Rightarrow> L2DB \<Rightarrow> fault \<Rightarrow> bytes \<Rightarrow> string \<Rightarrow> bool \<Rightarrow> string list
     \<Rightarrow> (RepositoryError + Package \<times> QCRecord) \<times> L2DB" where
  "QualityCheck marshal db flt rnd sessionID passed issues =
     (if flt = Some 1
      then (Inl \<lparr>ErrCode = ''DATABASE_ERROR'', Message = ''Database error'', Detail = driver_error\<rparr>, db)
      else case find (\<lambda>s. sID s = sessionID) (sessions db) of
        None \<Rightarrow> (Inl \<lparr>ErrCode = ''NOT_FOUND'', Message = ''Session not found'',
                       Detail = ''Session '' @ sessionID @ '' does not exist''\<rparr>, db)
      | Some session \<Rightarrow>
         if flt = Some 2
         then (Inl \<lparr>ErrCode = ''DATABASE_ERROR'', Message = ''Database error'', Detail = driver_error\<rparr>, db)
         else (case find (\<lambda>p. pSessionID p = Some sessionID) (packages db) of
           None \<Rightarrow> (Inl \<lparr>ErrCode = ''NOT_FOUND'', Message = ''Package not found for session'',
                          Detail = ''No package linked to session '' @ sessionID\<rparr>, db)
         | Some pkg0 \<Rightarrow>
            (let issuesJSON = marshal issues;
                 qcRecord = \<lparr>qID = ''QC-'' @ take 8 (uuid_String (uuid_New rnd)),
                             qSessionID = sessionID, qPassed = passed, qIssues = issuesJSON\<rparr>
             in if flt = Some 3 \<or> qID qcRecord \<in> qID ` set (qc_records db)
                   \<or> sessionID \<in> qSessionID ` set (qc_records db)
                then (Inl \<lparr>ErrCode = ''CREATE_FAILED'', Message = ''Failed to create QC record'',
                           Detail = driver_error\<rparr>, db)
                else
                  (let pkg = pkg0\<lparr>pStatus := (if passed then ''qc_passed'' else ''qc_failed'')\<rparr> in
                   if flt = Some 4
                   then (Inl \<lparr>ErrCode = ''UPDATE_FAILED'', Message = ''Failed to update package'',
                              Detail = driver_error\<rparr>, db)
                   else if flt = Some 5
                   then (Inl \<lparr>ErrCode = ''COMMIT_FAILED'', Message = ''Failed to commit transaction'',
                              Detail = driver_error\<rparr>, db)
                   else (Inr (pkg, qcRecord),
                         db\<lparr>qc_records := qc_records db @ [qcRecord],
                            packages := save_package pkg (packages db)\<rparr>)))))"

text \<open>
  \<open>LabelPackage\<close>. Two UUIDs are drawn, one for the label identifier and one for the
  tracking number. The new row violates a constraint of the schema when its identifier or
  its session already has a label (primary key, unique index), or when its session has no
  row (the foreign key of the relation \<open>Label\<close> of the model \<open>Session\<close>). The reload of the
  label after the commit only fills in the courier.
\<close>

definition LabelPackage ::
  "L2DB \<Rightarrow> fault \<Rightarrow> bytes \<Rightarrow> bytes \<Rightarrow> string \<Rightarrow> string \<Rightarrow> (RepositoryError + Label) \<times> L2DB" where
  "LabelPackage db flt rnd1 rnd2 sessionID courierID =
     (if flt = Some 1
      then (Inl \<lparr>ErrCode = ''DATABASE_ERROR'', Message = ''Database error'', Detail = driver_error\<rparr>, db)
      else case find (\<lambda>c. cID c = courierID) (couriers db) of
        None \<Rightarrow> (Inl \<lparr>ErrCode = ''NOT_FOUND'', Message = ''Courier not found'',
                       Detail = ''Courier '' @ courierID @ '' does not exist''\<rparr>, db)
      | Some courier \<Rightarrow>
         (let label = \<lparr>lID = ''LBL-'' @ take 8 (uuid_String (uuid_New rnd1)),
                       lSessionID = sessionID, lCourierID = courierID,
                       lTrackingNo = ''TRK-'' @ take 12 (uuid_String (uuid_New rnd2))\<rparr>
          in if flt = Some 2 \<or> lID label \<in> lID ` set (labels db)
                \<or> sessionID \<in> lSessionID ` set (labels db)
                \<or> sessionID \<notin> sID ` set (sessions db)
             then (Inl \<lparr>ErrCode = ''CREATE_FAILED'', Message = ''Failed to create label'',
                        Detail = driver_error\<rparr>, db)
             else if flt = Some 3
             then (Inl \<lparr>ErrCode = ''UPDATE_FAILED'', Message = ''Failed to update package'',
                        Detail = driver_error\<rparr>, db)
             else if flt = Some 4
             then (Inl \<lparr>ErrCode = ''UPDATE_FAILED'', Message = ''Failed to update session'',
                        Detail = driver_error\<rparr>, db)
             else if flt = Some 5
             then (Inl \<lparr>ErrCode = ''COMMIT_FAILED'', Message = ''Failed to commit transaction'',
                        Detail = driver_error\<rparr>, db)
             else (Inr label,
                   db\<lparr>labels := labels db @ [label],
                      packages := map (\<lambda>p. if pSessionID p = Some sessionID
                                             then p\<lparr>pStatus := ''labeled''\<rparr> else p) (packages db),
                      sessions := map (\<lambda>s. if sID s = sessionID
                                             then s\<lparr>sStatus := ''completed''\<rparr> else s) (sessions db)\<rparr>)))"

text \<open>
  \<open>MarkSessionCommitted\<close>: one \<open>UPDATE\<close> that sets the five columns of every row with the
  session identifier. \<open>now\<close> is the clock.
\<close>

definition MarkSessionCommitted ::
  "L2DB \<Rightarrow> fault \<Rightarrow> nat \<Rightarrow> string \<Rightarrow> string \<Rightarrow> int64 \<Rightarrow> RepositoryError option \<times> L2DB" where
  "MarkSessionCommitted db flt now sessionID txHash blockHeight =
     (if flt = Some 1
      then (Some \<lparr>ErrCode = ''UPDATE_FAILED'', Message = ''Failed to mark session as committed'',
                  Detail = driver_error\<rparr>, db)
      else (None,
            db\<lparr>sessions :=
                 map (\<lambda>s. if sID s = sessionID
                           then s\<lparr>sIsCommitted := True, sStatus := ''committed'',
                                  sL1TxHash := Some txHash, sL1BlockHeight := Some blockHeight,
                                  sL1CommitTime := Some now\<rparr>
                           else s) (sessions db)\<rparr>))"

subsection \<open>Requests, responses and the router\<close>

text \<open>
  \<open>Request\<close> and \<open>Response\<close> of the service registry. A Go map with string keys is a partial
  function; reading a missing key of a \<open>map[string]string\<close> gives the empty string. Where
  the source writes a response body over several lines, the line breaks and the
  indentation inside the body are left out.
\<close>

record Request =
  Method :: string
  Path :: string
  ReqBody :: string
  ReqHeaders :: "string \<rightharpoonup> string"

record Response =
  StatusCode :: nat
  Headers :: "string \<rightharpoonup> string"
  Body :: string

definition defaultHeaders :: "string \<rightharpoonup> string" where
  "defaultHeaders = [''Content-Type'' \<mapsto> ''application/json'']"


text \<open>
  The registry maps a method to a map from patterns to handlers. The inner map is a list
  of pairs with different patterns, because the router iterates over it: the order of
  the list is the order of that iteration, which Go leaves unspecified. A handler is any
  value of type \<open>'h\<close>. The lookup of another shard by its client group belongs to the L1
  client, whose code for it is not part of the sources: it is the field
  \<open>GetShardByClientGroup\<close>, which returns the shard identifier and the L2 endpoint.
\<close>

record 'h ServiceRegistry =
  handlers :: "string \<rightharpoonup> (string \<times> 'h) list"
  shardID :: string
  clientGroup :: string
  GetShardByClientGroup :: "string \<Rightarrow> (string \<times> string) option"

fun put :: "'k \<Rightarrow> 'v \<Rightarrow> ('k \<times> 'v) list \<Rightarrow> ('k \<times> 'v) list" where
  "put k v [] = [(k, v)]"
| "put k v ((k', v') # rest) = (if k' = k then (k, v) # rest else (k', v') # put k v rest)"

definition RegisterHandler :: "string \<Rightarrow> string \<Rightarrow> 'h \<Rightarrow> 'h ServiceRegistry \<Rightarrow> 'h ServiceRegistry" where
  "RegisterHandler method path handler sr =
     sr\<lparr>handlers := (handlers sr)(method \<mapsto>
           put path handler (case handlers sr method of None \<Rightarrow> [] | Some m \<Rightarrow> m))\<rparr>"

text \<open>
  \<open>matchPath\<close>: both strings are split at the slashes; with the same number of pieces, the
  loop compares them position by position and skips a piece of the pattern that starts
  with a colon.
\<close>

definition matchPath :: "string \<Rightarrow> string \<Rightarrow> bool" where
  "matchPath pattern path =
     (let patternParts = Split pattern CHR ''/'';
          pathParts = Split path CHR ''/''
      in if length patternParts \<noteq> length pathParts then False
         else list_all (\<lambda>(patternPart, pathPart). HasPrefix patternPart '':'' \<or> patternPart = pathPart)
                (zip patternParts pathParts))"






subsection \<open>The commit handler\<close>

text \<open>
  The L1 client's \<open>CommitSession\<close> posts the session to the L1 and parses the answer. The
  network is outside the model: the call is the parameter \<open>l1_CommitSession\<close>, which returns
  the error text or the two fields of the answer that the handler reads.
\<close>

record CommitResponse =
  Data_TxHash :: string
  Meta_BlockHeight :: int64

text \<open>
  A handler returns its pair of response and error, or it stops with a run-time panic:
  the 409 branch of \<open>CommitSessionHandler\<close> dereferences the pointer \<open>session.L1TxHash\<close>, which
  panics when the column is null.
\<close>

datatype 'a outcome = Panic | Returns 'a

definition CommitSessionHandler ::
  "(L2Session \<Rightarrow> string \<Rightarrow> string + CommitResponse) \<Rightarrow> 'h ServiceRegistry \<Rightarrow> L2DB \<Rightarrow> fault \<Rightarrow> fault
     \<Rightarrow> nat \<Rightarrow> Request \<Rightarrow> (Response option \<times> string option) outcome \<times> L2DB" where
  "CommitSessionHandler l1_CommitSession sr db flt_get flt_mark now req =
     (let pathParts = Split (Path req) CHR ''/'' in
      if length pathParts \<noteq> 4
      then (Returns (Some \<lparr>StatusCode = 400, Headers = defaultHeaders,
                           Body = ''{\"error\":\"Invalid path format\"}''\<rparr>, None), db)
      else
        (let sessionID = pathParts ! 2 in
         case GetSession db flt_get sessionID of
           Inl dbErr \<Rightarrow>
             (Returns (Some \<lparr>StatusCode = (if ErrCode dbErr = ''NOT_FOUND'' then 404 else 500),
                             Headers = defaultHeaders,
                             Body = ''{\"error\":\"'' @ Message dbErr @ ''\"}''\<rparr>, None), db)
         | Inr session \<Rightarrow>
             if sIsCommitted session
             then (case sL1TxHash session of
                     None \<Rightarrow> (Panic, db)
                   | Some tx_hash \<Rightarrow>
                       (Returns (Some \<lparr>StatusCode = 409, Headers = defaultHeaders,
                                       Body = ''{\"error\":\"Session already committed\",\"tx_hash\":\"''
                                              @ tx_hash @ ''\"}''\<rparr>, None), db))
             else if sStatus session \<noteq> ''completed''
             then (Returns (Some \<lparr>StatusCode = 400, Headers = defaultHeaders,
                                  Body = ''{\"error\":\"Session must be completed before committing\",\"current_status\":\"''
                                         @ sStatus session @ ''\"}''\<rparr>, None), db)
             else
               (case l1_CommitSession session (clientGroup sr) of
                  Inl err \<Rightarrow>
                    (Returns (Some \<lparr>StatusCode = 502, Headers = defaultHeaders,
                                    Body = ''{\"error\":\"Failed to commit to L1: '' @ err @ ''\"}''\<rparr>, None), db)
                | Inr l1Response \<Rightarrow>
                    (case MarkSessionCommitted db flt_mark now sessionID (Data_TxHash l1Response)
                            (Meta_BlockHeight l1Response) of
                       (Some dbErr, db') \<Rightarrow>
                         (Returns (Some \<lparr>StatusCode = 500, Headers = defaultHeaders,
                                         Body = ''{\"error\":\"Failed to update session: '' @ Message dbErr
                                                @ ''\"}''\<rparr>, None), db')
                     | (None, db') \<Rightarrow>
                         (Returns (Some \<lparr>StatusCode = 200, Headers = defaultHeaders,
                                         Body = ''{\"message\":\"Session committed to L1 successfully\",\"session_id\":\"''
                                                @ sessionID @ ''\",\"tx_hash\":\"'' @ Data_TxHash l1Response
                                                @ ''\",\"block_height\":''
                                                @ format_int (sint (Meta_BlockHeight l1Response))
                                                @ '',\"shard_id\":\"'' @ shardID sr
                                                @ ''\",\"status\":\"committed\"}''\<rparr>, None), db')))))"

subsection \<open>Reachable states of the L2 store\<close>

text \<open>
  The store starts without sessions, QC records and labels (migration and seeding create
  suppliers, couriers, packages and items only) and changes through the repository
  operations, with any arguments, any fault and any answer of the L1.
\<close>

inductive l2_reachable :: "L2DB \<Rightarrow> bool" where
  fresh: "sessions db = [] \<Longrightarrow> qc_records db = [] \<Longrightarrow> labels db = [] \<Longrightarrow> l2_reachable db"
| create: "l2_reachable db \<Longrightarrow> l2_reachable (snd (CreateSession db flt rnd operatorID))"
| scan: "l2_reachable db \<Longrightarrow> l2_reachable (snd (ScanPackage db flt sessionID packageID))"
| validate: "l2_reachable db \<Longrightarrow> l2_reachable (snd (ValidatePackage db flt signature packageID sessionID))"
| qc: "l2_reachable db \<Longrightarrow> l2_reachable (snd (QualityCheck marshal db flt rnd sessionID passed issues))"
| label: "l2_reachable db \<Longrightarrow> l2_reachable (snd (LabelPackage db flt rnd1 rnd2 sessionID courierID))"
| mark: "l2_reachable db \<Longrightarrow> l2_reachable (snd (MarkSessionCommitted db flt now sessionID txHash blockHeight))"

text \<open>The invariant: a committed session carries the hash and the height of its L1 transaction.\<close>

definition committed_has_l1_info :: "L2DB \<Rightarrow> bool" where
  "committed_has_l1_info db =
     list_all (\<lambda>s. sIsCommitted s \<longrightarrow> sL1TxHash s \<noteq> None \<and> sL1BlockHeight s \<noteq> None) (sessions db)"

section \<open>L1 commit pipeline\<close>

subsection \<open>The index store\<close>

text \<open>
  The rows of the L1 models (without the timestamps that the ORM maintains and without
  the operator table, which the commit path does not touch), and the relational database
  as one list of rows per table.
\<close>

record ShardInfo =
  hShardID :: string
  hClientGroup :: string
  hL2NodeID :: string
  hStatus :: string

record L1Session =
  iID :: string
  iShardID :: string
  iClientGroup :: string
  iOperatorID :: string
  iStatus :: string
  iIsCommitted :: bool
  iTxHash :: "string option"
  iSessionData :: string

record L1Transaction =
  tTxHash :: string
  tSessionID :: string
  tShardID :: string
  tClientGroup :: string
  tBlockHeight :: int64
  tTimestamp :: nat
  tStatus :: string

record L1DB =
  shards :: "ShardInfo list"
  index_sessions :: "L1Session list"
  transactions :: "L1Transaction list"

subsection \<open>The consensus adapter\<close>

text \<open>
  A Go context is the background context, whose \<open>Done\<close> channel never becomes ready, or a
  context whose \<open>Done\<close> channel becomes ready at some time, with the text of its error
  (deadline exceeded or cancelled). Time is a natural number. \<open>Err\<close> is only read after
  \<open>Done\<close> is ready.
\<close>

datatype go_context = Background | DoneAt nat string

definition ctx_Done :: "go_context \<Rightarrow> nat option" where
  "ctx_Done ctx = (case ctx of Background \<Rightarrow> None | DoneAt d err \<Rightarrow> Some d)"

definition ctx_Err :: "go_context \<Rightarrow> string" where
  "ctx_Err ctx = (case ctx of Background \<Rightarrow> [] | DoneAt d err \<Rightarrow> err)"

record BroadcastResult =
  rCheckTxCode :: nat
  rHash :: bytes
  rHeight :: int64

record ConsensusResult =
  cTxHash :: string
  cBlockHeight :: int64
  cCode :: nat

text \<open>
  What lies outside the L1 code is one record of parameters: \<open>json.Marshal\<close> of the
  session data and of the whole request (error text or result); the consensus engine's
  \<open>BroadcastTxCommit\<close>, which for a context and a transaction never returns (\<open>None\<close>) or
  returns at some time an error text or its result; the choice of \<open>select\<close> when both of
  its channels are ready; the fault of the database, as for the L2; and the clock.
\<close>

record 'd L1Env =
  marshal_session_data :: "'d \<Rightarrow> string + string"
  marshal_request :: "'d ShardedCommitRequest \<Rightarrow> string + bytes"
  BroadcastTxCommit :: "go_context \<Rightarrow> bytes \<Rightarrow> (nat \<times> (string + BroadcastResult)) option"
  select_takes_done :: bool
  db_fault :: fault
  clock :: nat

text \<open>
  \<open>RunConsensus\<close> starts the broadcast on a goroutine and waits in a \<open>select\<close> for the
  context or for the result. It returns when the first of the two is ready; when neither
  ever is, it does not return, which is the result \<open>None\<close>.
\<close>

definition consensus_outcome :: "string + BroadcastResult \<Rightarrow> RepositoryError + ConsensusResult" where
  "consensus_outcome result =
     (case result of
        Inl err \<Rightarrow> Inl \<lparr>ErrCode = ''CONSENSUS_ERROR'', Message = ''Failed to commit to blockchain'',
                         Detail = err\<rparr>
      | Inr res \<Rightarrow>
          if rCheckTxCode res \<noteq> 0
          then Inl \<lparr>ErrCode = ''CONSENSUS_ERROR'', Message = ''Blockchain rejected transaction'',
                    Detail = ''CheckTx code: '' @ decimal (rCheckTxCode res)\<rparr>
          else Inr \<lparr>cTxHash = EncodeToString (rHash res), cBlockHeight = rHeight res,
                    cCode = rCheckTxCode res\<rparr>)"

definition RunConsensus ::
  "'d L1Env \<Rightarrow> go_context \<Rightarrow> 'd ShardedCommitRequest \<Rightarrow> (RepositoryError + ConsensusResult) option" where
  "RunConsensus env ctx payload =
     (case marshal_request env payload of
        Inl err \<Rightarrow> Some (Inl \<lparr>ErrCode = ''SERIALIZATION_ERROR'',
                                Message = ''Failed to serialize consensus payload'', Detail = err\<rparr>)
      | Inr payloadBytes \<Rightarrow>
          (let timeout = Inl \<lparr>ErrCode = ''CONSENSUS_TIMEOUT'', Message = ''Consensus operation timed out'',
                               Detail = ctx_Err ctx\<rparr>
           in case (ctx_Done ctx, BroadcastTxCommit env ctx payloadBytes) of
                (None, None) \<Rightarrow> None
              | (Some d, None) \<Rightarrow> Some timeout
              | (None, Some (t, result)) \<Rightarrow> Some (consensus_outcome result)
              | (Some d, Some (t, result)) \<Rightarrow>
                  if d < t then Some timeout
                  else if t < d then Some (consensus_outcome result)
                  else if select_takes_done env then Some timeout
                  else Some (consensus_outcome result)))"

subsection \<open>The repository\<close>

definition save_session :: "L1Session \<Rightarrow> L1Session list \<Rightarrow> L1Session list" where
  "save_session session rows =
     (if iID session \<in> iID ` set rows then map (\<lambda>s. if iID s = iID session then session else s) rows
      else rows @ [session])"

text \<open>
  \<open>ReceiveShardCommit\<close>. The statements that can fail with a fault are numbered: 1 the
  start of the transaction, 2 the lookup of the shard, 3 the insertion of the index row, 4
  the commit of the insertion, 5 the deletion of the row after a failed consensus, 6 the
  update of the row with the hash, 7 the insertion of the transaction row, 8 the final
  commit. The insertion of a row whose key exists is the unique violation. The code does
  not look at the result of the deletion: when that statement fails, the row stays and the
  error of the consensus is returned all the same. The consensus runs with
  \<open>context.Background()\<close>.
\<close>

definition ReceiveShardCommit ::
  "'d L1Env \<Rightarrow> L1DB \<Rightarrow> 'd ShardedCommitRequest \<Rightarrow> ((RepositoryError + L1Transaction) \<times> L1DB) option" where
  "ReceiveShardCommit env db commitReq =
     (if db_fault env = Some 1
      then Some (Inl \<lparr>ErrCode = ''DATABASE_ERROR'', Message = ''Failed to start transaction'',
                      Detail = driver_error\<rparr>, db)
      else if db_fault env = Some 2
      then Some (Inl \<lparr>ErrCode = ''DATABASE_ERROR'', Message = ''Database error'',
                      Detail = driver_error\<rparr>, db)
      else case find (\<lambda>h. hShardID h = ShardID commitReq) (shards db) of
        None \<Rightarrow>
          Some (Inl \<lparr>ErrCode = ''SHARD_NOT_FOUND'', Message = ''Unknown shard'',
                     Detail = ''Shard '' @ ShardID commitReq @ '' not registered in L1''\<rparr>, db)
      | Some shard \<Rightarrow>
         (case marshal_session_data env (SessionData commitReq) of
            Inl err \<Rightarrow>
              Some (Inl \<lparr>ErrCode = ''SERIALIZATION_ERROR'', Message = ''Failed to serialize session data'',
                         Detail = err\<rparr>, db)
          | Inr sessionDataBytes \<Rightarrow>
             (let session = \<lparr>iID = SessionID commitReq, iShardID = ShardID commitReq,
                             iClientGroup = ClientGroup commitReq, iOperatorID = OperatorID commitReq,
                             iStatus = ''committed'', iIsCommitted = True, iTxHash = None,
                             iSessionData = sessionDataBytes\<rparr>
              in if db_fault env = Some 3
                 then Some (Inl \<lparr>ErrCode = ''DATABASE_ERROR'', Message = ''Failed to create session'',
                                 Detail = driver_error\<rparr>, db)
                 else if iID session \<in> iID ` set (index_sessions db)
                 then Some (Inl \<lparr>ErrCode = ''SESSION_EXISTS'', Message = ''Session already exists'',
                                 Detail = ''Session '' @ SessionID commitReq @ '' already committed''\<rparr>, db)
                 else if db_fault env = Some 4
                 then Some (Inl \<lparr>ErrCode = ''DATABASE_ERROR'',
                                 Message = ''Failed to commit database transaction'',
                                 Detail = driver_error\<rparr>, db)
                 else
                  (let db1 = db\<lparr>index_sessions := index_sessions db @ [session]\<rparr> in
                   case RunConsensus env Background commitReq of
                     None \<Rightarrow> None
                   | Some (Inl repoErr) \<Rightarrow>
                       if db_fault env = Some 5 then Some (Inl repoErr, db1)
                       else Some (Inl repoErr,
                                  db1\<lparr>index_sessions :=
                                        filter (\<lambda>s. iID s \<noteq> iID session) (index_sessions db1)\<rparr>)
                   | Some (Inr consensusResult) \<Rightarrow>
                      (let session2 = session\<lparr>iTxHash := Some (cTxHash consensusResult)\<rparr> in
                       if db_fault env = Some 6
                       then Some (Inl \<lparr>ErrCode = ''DATABASE_ERROR'',
                                       Message = ''Failed to update session with tx hash'',
                                       Detail = driver_error\<rparr>, db1)
                       else
                        (let transaction =
                               \<lparr>tTxHash = cTxHash consensusResult, tSessionID = SessionID commitReq,
                                tShardID = ShardID commitReq, tClientGroup = ClientGroup commitReq,
                                tBlockHeight = cBlockHeight consensusResult, tTimestamp = clock env,
                                tStatus = ''confirmed''\<rparr>
                         in if db_fault env = Some 7
                               \<or> tSessionID transaction \<in> tSessionID ` set (transactions db1)
                            then Some (Inl \<lparr>ErrCode = ''DATABASE_ERROR'',
                                            Message = ''Failed to create transaction record'',
                                            Detail = driver_error\<rparr>, db1)
                            else if db_fault env = Some 8
                            then Some (Inl \<lparr>ErrCode = ''DATABASE_ERROR'',
                                            Message = ''Failed to commit final transaction'',
                                            Detail = driver_error\<rparr>, db1)
                            else Some (Inr transaction,
                                       db1\<lparr>index_sessions := save_session session2 (index_sessions db1),
                                          transactions := transactions db1 @ [transaction]\<rparr>)))))))"

text \<open>The cross-shard queries, without the preloaded relations.\<close>

definition GetSessionsByClientGroup :: "L1DB \<Rightarrow> string \<Rightarrow> L1Session list" where
  "GetSessionsByClientGroup db cg = filter (\<lambda>s. iClientGroup s = cg) (index_sessions db)"

definition GetSessionsByShard :: "L1DB \<Rightarrow> string \<Rightarrow> L1Session list" where
  "GetSessionsByShard db shard = filter (\<lambda>s. iShardID s = shard) (index_sessions db)"

subsection \<open>The L1 service registry\<close>

text \<open>
  The L1 request has three more fields than the L2 request. The registry maps a route key
  (method in upper case, path) to a handler and to the flag that says whether the path is
  to be matched exactly; as for the L2, the map of handlers is a list in the order of the
  iteration. \<open>matchPath\<close> of the L1 is the function of the L2 word for word.
\<close>

record L1Request = Request +
  RemoteAddr :: string
  RequestID :: string
  ReqTimestamp :: nat

type_synonym RouteKey = "string \<times> string"

record 'h L1ServiceRegistry =
  l1_handlers :: "(RouteKey \<times> 'h) list"
  exactRoutes :: "RouteKey \<rightharpoonup> bool"

definition exact_route :: "'h L1ServiceRegistry \<Rightarrow> RouteKey \<Rightarrow> bool" where
  "exact_route sr key = (case exactRoutes sr key of None \<Rightarrow> False | Some b \<Rightarrow> b)"

definition L1_RegisterHandler ::
  "string \<Rightarrow> string \<Rightarrow> bool \<Rightarrow> 'h \<Rightarrow> 'h L1ServiceRegistry \<Rightarrow> 'h L1ServiceRegistry" where
  "L1_RegisterHandler method path isExactPath handler sr =
     (let key = (ToUpper method, path)
      in sr\<lparr>l1_handlers := put key handler (l1_handlers sr),
            exactRoutes := (exactRoutes sr)(key \<mapsto> isExactPath)\<rparr>)"

definition L1_GetHandlerForPath :: "'h L1ServiceRegistry \<Rightarrow> string \<Rightarrow> string \<Rightarrow> 'h option" where
  "L1_GetHandlerForPath sr method path =
     (let key = (ToUpper method, path);
          by_pattern =
            (case find (\<lambda>(routeKey, handler). fst routeKey = ToUpper method \<and> \<not> exact_route sr routeKey
                                              \<and> matchPath (snd routeKey) path) (l1_handlers sr) of
               Some (routeKey, handler) \<Rightarrow> Some handler
             | None \<Rightarrow> None)
      in case map_of (l1_handlers sr) key of
           Some handler \<Rightarrow> if exact_route sr key then Some handler else by_pattern
         | None \<Rightarrow> by_pattern)"

text \<open>
  \<open>ReceiveShardCommitHandler\<close>. \<open>unmarshal\<close> is \<open>json.Unmarshal\<close> into the commit request, as
  in the ABCI application. Every branch but the last returns its response together with
  an error.
\<close>

definition ReceiveShardCommitHandler ::
  "(bytes \<Rightarrow> string + 'd ShardedCommitRequest) \<Rightarrow> 'd L1Env \<Rightarrow> L1Request \<Rightarrow> L1DB
     \<Rightarrow> ((Response option \<times> string option) \<times> L1DB) option" where
  "ReceiveShardCommitHandler unmarshal env req db =
     (case unmarshal (to_bytes (ReqBody req)) of
        Inl err \<Rightarrow>
          Some ((Some \<lparr>StatusCode = 400, Headers = defaultHeaders,
                       Body = ''{\"error\":\"Invalid request format: '' @ err @ ''\"}''\<rparr>, Some err), db)
      | Inr commitReq \<Rightarrow>
          if ShardID commitReq = [] \<or> SessionID commitReq = [] \<or> ClientGroup commitReq = []
          then Some ((Some \<lparr>StatusCode = 400, Headers = defaultHeaders,
                            Body = ''{\"error\":\"Missing required fields: shard_id, session_id, client_group\"}''\<rparr>,
                      Some ''missing required fields''), db)
          else
            (case ReceiveShardCommit env db commitReq of
               None \<Rightarrow> None
             | Some (Inl repoErr, db') \<Rightarrow>
                 if ErrCode repoErr = ''SHARD_NOT_FOUND''
                 then Some ((Some \<lparr>StatusCode = 400, Headers = defaultHeaders,
                                   Body = ''{\"error\":\"'' @ Detail repoErr @ ''\"}''\<rparr>,
                             Some (''shard not found: '' @ Detail repoErr)), db')
                 else if ErrCode repoErr = ''SESSION_EXISTS''
                 then Some ((Some \<lparr>StatusCode = 409, Headers = defaultHeaders,
                                   Body = ''{\"error\":\"'' @ Detail repoErr @ ''\"}''\<rparr>,
                             Some (''session exists: '' @ Detail repoErr)), db')
                 else Some ((Some \<lparr>StatusCode = 500, Headers = defaultHeaders,
                                   Body = ''{\"error\":\"Internal server error\"}''\<rparr>,
                             Some (''repository error: '' @ Detail repoErr)), db')
             | Some (Inr transaction, db') \<Rightarrow>
                 Some ((Some \<lparr>StatusCode = 202, Headers = defaultHeaders,
                              Body = ''{\"message\": \"Shard commit processed successfully\",\"tx_hash\": \"''
                                     @ tTxHash transaction @ ''\",\"session_id\": \"'' @ tSessionID transaction
                                     @ ''\",\"shard_id\": \"'' @ tShardID transaction
                                     @ ''\",\"block_height\": ''
                                     @ format_int (sint (tBlockHeight transaction)) @ ''}''\<rparr>, None), db')))"

definition L1_GenerateResponse ::
  "(L1Request \<Rightarrow> L1DB \<Rightarrow> ((Response option \<times> string option) \<times> L1DB) option) L1ServiceRegistry \<Rightarrow>
   L1Request \<Rightarrow> L1DB \<Rightarrow> ((Response option \<times> string option) \<times> L1DB) option" where
  "L1_GenerateResponse services req db =
     (case L1_GetHandlerForPath services (Method req) (Path req) of
        None \<Rightarrow>
          Some ((Some \<lparr>StatusCode = 404, Headers = defaultHeaders,
                       Body = ''{\"error\":\"Service not found for '' @ Method req @ '' '' @ Path req
                              @ ''\"}''\<rparr>, None), db)
      | Some handler \<Rightarrow> handler req db)"

subsection \<open>The L1 HTTP surface\<close>

text \<open>
  The incoming HTTP request, with its context, and what \<open>handleL1API\<close> writes: a status
  code and a body, which is the small error object of \<open>JSONError\<close> or the wrapped response
  (the handler's body as data, and the status and transaction identifier of the meta
  block). The library calls of this layer are parameters again: the random request
  identifier (error text or 16 bytes), \<open>strings.TrimSpace\<close>, \<open>json.Compact\<close> (\<open>None\<close> for its
  error), whether \<open>json.Unmarshal\<close> parses a body into a JSON object with a numeric
  \<open>block_height\<close> (without it the type assertion on that field panics), and the text of
  the field \<open>tx_hash\<close> of a parsed body.
\<close>

record HttpRequest =
  hMethod :: string
  hURLPath :: string
  hHeader :: "string \<rightharpoonup> string list"
  hBody :: "string + string"
  hRemoteAddr :: string
  hContext :: go_context

datatype written_body = ErrorJSON string | Wrapped string string string

record HttpWritten =
  wStatus :: nat
  wBody :: written_body

record HttpLib =
  rand_Read :: "string + bytes"
  TrimSpace :: "string \<Rightarrow> string"
  json_Compact :: "string \<Rightarrow> string option"
  has_block_height :: "string \<Rightarrow> bool"
  tx_hash_of :: "string \<Rightarrow> string"

definition generateRequestID :: "HttpLib \<Rightarrow> string + string" where
  "generateRequestID lib = (case rand_Read lib of Inl err \<Rightarrow> Inl err | Inr bs \<Rightarrow> Inr (EncodeToString bs))"

definition compactJSON :: "HttpLib \<Rightarrow> string \<Rightarrow> string" where
  "compactJSON lib body = (case json_Compact lib body of None \<Rightarrow> TrimSpace lib body | Some out \<Rightarrow> out)"

definition ConvertHttpRequestToConsensusRequest ::
  "HttpLib \<Rightarrow> nat \<Rightarrow> HttpRequest \<Rightarrow> string \<Rightarrow> string + L1Request" where
  "ConvertHttpRequestToConsensusRequest lib now r requestID =
     (let headers = (\<lambda>name. case hHeader r name of
                               None \<Rightarrow> None | Some [] \<Rightarrow> None | Some (v # vs) \<Rightarrow> Some v)
      in case hBody r of
           Inl err \<Rightarrow> Inl err
         | Inr bodyBytes \<Rightarrow>
             Inr \<lparr>Method = hMethod r, Path = hURLPath r,
                  ReqBody = compactJSON lib (TrimSpace lib bodyBytes), ReqHeaders = headers,
                  RemoteAddr = hRemoteAddr r, RequestID = requestID, ReqTimestamp = now\<rparr>)"

text \<open>
  \<open>handleL1API\<close>. An error of the handler ends the request with status 422 and the error
  object, whatever response the handler returned with it. Otherwise the response is
  wrapped and written with the handler's status code.
\<close>

definition handleL1API ::
  "HttpLib \<Rightarrow> nat \<Rightarrow>
   (L1Request \<Rightarrow> L1DB \<Rightarrow> ((Response option \<times> string option) \<times> L1DB) option) L1ServiceRegistry \<Rightarrow>
   HttpRequest \<Rightarrow> L1DB \<Rightarrow> (HttpWritten outcome \<times> L1DB) option" where
  "handleL1API lib now serviceRegistry r db =
     (case generateRequestID lib of
        Inl err \<Rightarrow> Some (Returns \<lparr>wStatus = 500, wBody = ErrorJSON ''Internal Server Error''\<rparr>, db)
      | Inr requestID \<Rightarrow>
         (case ConvertHttpRequestToConsensusRequest lib now r requestID of
            Inl err \<Rightarrow>
              Some (Returns \<lparr>wStatus = 422, wBody = ErrorJSON (''Failed to convert request: '' @ err)\<rparr>, db)
          | Inr request \<Rightarrow>
             (case L1_GenerateResponse serviceRegistry request db of
                None \<Rightarrow> None
              | Some ((response, Some err), db') \<Rightarrow>
                  Some (Returns \<lparr>wStatus = 422,
                                 wBody = ErrorJSON (''Failed to generate response: '' @ err)\<rparr>, db')
              | Some ((None, None), db') \<Rightarrow> Some (Panic, db')
              | Some ((Some response, None), db') \<Rightarrow>
                  if Contains (hURLPath r) ''/commit'' \<and> StatusCode response = 202
                  then if has_block_height lib (Body response)
                       then Some (Returns \<lparr>wStatus = StatusCode response,
                                           wBody = Wrapped (Body response) ''confirmed''
                                                     (tx_hash_of lib (Body response))\<rparr>, db')
                       else Some (Panic, db')
                  else Some (Returns \<lparr>wStatus = StatusCode response,
                                      wBody = Wrapped (Body response) ''processed'' []\<rparr>, db'))))"

section \<open>Concrete inputs\<close>

text \<open>Small inputs on which the theorems below are instantiated.\<close>

definition demo_commit :: "unit ShardedCommitRequest" where
  "demo_commit = \<lparr>ShardID = ''shard-a'', ClientGroup = ''group-a'', SessionID = ''SES-1'',
      OperatorID = ''OPR-001'', SessionData = (), L2NodeID = ''l2-node-a'', Timestamp = 0\<rparr>"

definition demo_unmarshal :: "bytes \<Rightarrow> string + unit ShardedCommitRequest" where
  "demo_unmarshal b = (if b = [1] then Inr demo_commit else Inl ''invalid character'')"

definition demo_sha :: "bytes \<Rightarrow> bytes" where
  "demo_sha b = take 2 b"

definition accept_all :: "txn \<Rightarrow> bytes \<Rightarrow> bytes \<Rightarrow> string option" where
  "accept_all t k v = None"

text \<open>
  A store whose write transaction takes at most \<open>n\<close> writes and refuses every further one,
  as Badger does with \<open>ErrTxnTooBig\<close> once the transaction has reached its limit.
\<close>

definition demo_small_store :: "nat \<Rightarrow> txn \<Rightarrow> bytes \<Rightarrow> bytes \<Rightarrow> string option" where
  "demo_small_store n t k v =
     (if n \<le> length t then Some ''Txn is too big to fit into one request'' else None)"

definition demo_app :: Application where
  "demo_app = \<lparr>badgerDB = Map.empty, onGoingBlock = None\<rparr>"

definition demo_l2db :: L2DB where
  "demo_l2db = \<lparr>sessions = [], packages = [\<lparr>pID = ''PKG-001'', pSignature = ''sig_acme_electronics_001'',
        pSupplierID = ''SUP-001'', pStatus = ''pending'', pIsTrusted = False, pSessionID = None\<rparr>],
      qc_records = [], labels = [], couriers = [\<lparr>cID = ''CUR-001'', cName = ''FastShip Express''\<rparr>]\<rparr>"


definition demo_handler :: "string \<Rightarrow> Request \<Rightarrow> unit \<Rightarrow> (Response option \<times> string option) \<times> unit" where
  "demo_handler name req st = ((Some \<lparr>StatusCode = 200, Headers = defaultHeaders, Body = name\<rparr>, None), st)"

definition demo_sr :: "(Request \<Rightarrow> unit \<Rightarrow> (Response option \<times> string option) \<times> unit) ServiceRegistry" where
  "demo_sr =
     RegisterHandler ''GET'' ''/info'' (demo_handler ''info'')
      (RegisterHandler ''POST'' ''/session/:id/commit'' (demo_handler ''commit'')
        (RegisterHandler ''GET'' ''/session/:id/scan'' (demo_handler ''scan'')
          (RegisterHandler ''POST'' ''/session/start'' (demo_handler ''start'')
            \<lparr>handlers = Map.empty, shardID = ''shard-a'', clientGroup = ''group-a'',
             GetShardByClientGroup =
               (\<lambda>g. if g = ''group-b'' then Some (''shard-b'', ''http://l2-shard-b:7002'') else None)\<rparr>)))"


definition demo_committed_db :: L2DB where
  "demo_committed_db =
     snd (MarkSessionCommitted (snd (CreateSession demo_l2db None (replicate 16 0) ''OPR-001''))
            None 100 ''SES-00000000'' ''ABCD'' 5)"

definition demo_l1_down :: "L2Session \<Rightarrow> string \<Rightarrow> string + CommitResponse" where
  "demo_l1_down session cg = Inl ''connection refused''"

definition demo_dup :: "unit ShardedCommitRequest" where
  "demo_dup = \<lparr>ShardID = ''shard-a'', ClientGroup = ''group-a'', SessionID = ''dup-1'',
      OperatorID = ''OPR-001'', SessionData = (), L2NodeID = ''l2-node-a'', Timestamp = 0\<rparr>"

definition demo_parse :: "bytes \<Rightarrow> string + unit ShardedCommitRequest" where
  "demo_parse b = (if b = to_bytes ''commit dup-1'' then Inr demo_dup else Inl ''invalid character'')"

definition demo_l1env :: "unit L1Env" where
  "demo_l1env =
     \<lparr>marshal_session_data = (\<lambda>d. Inr ''{}''), marshal_request = (\<lambda>r. Inr [1]),
      BroadcastTxCommit = (\<lambda>ctx tx. Some (5, Inr \<lparr>rCheckTxCode = 0, rHash = [0xAB], rHeight = 3\<rparr>)),
      select_takes_done = False, db_fault = None, clock = 100\<rparr>"

definition demo_l1db :: L1DB where
  "demo_l1db =
     \<lparr>shards = [\<lparr>hShardID = ''shard-a'', hClientGroup = ''group-a'', hL2NodeID = ''l2-node-a'',
                  hStatus = ''active''\<rparr>,
                 \<lparr>hShardID = ''shard-b'', hClientGroup = ''group-b'', hL2NodeID = ''l2-node-b'',
                  hStatus = ''active''\<rparr>],
      index_sessions = [], transactions = []\<rparr>"

definition demo_lib :: HttpLib where
  "demo_lib = \<lparr>rand_Read = Inr [7], TrimSpace = (\<lambda>s. s), json_Compact = (\<lambda>s. Some s),
                has_block_height = (\<lambda>s. True), tx_hash_of = (\<lambda>s. ''ab'')\<rparr>"

definition demo_l1sr ::
  "unit L1Env \<Rightarrow> (L1Request \<Rightarrow> L1DB \<Rightarrow> ((Response option \<times> string option) \<times> L1DB) option) L1ServiceRegistry" where
  "demo_l1sr env =
     L1_RegisterHandler ''POST'' ''/l1/commit'' True (ReceiveShardCommitHandler demo_parse env)
       \<lparr>l1_handlers = [], exactRoutes = Map.empty\<rparr>"

definition demo_commit_request :: "go_context \<Rightarrow> HttpRequest" where
  "demo_commit_request ctx =
     \<lparr>hMethod = ''POST'', hURLPath = ''/l1/commit'', hHeader = Map.empty,
      hBody = Inr ''commit dup-1'', hRemoteAddr = ''10.0.0.7:4242'', hContext = ctx\<rparr>"

definition demo_l1db_committed :: L1DB where
  "demo_l1db_committed =
     demo_l1db\<lparr>index_sessions :=
                  [\<lparr>iID = ''dup-1'', iShardID = ''shard-a'', iClientGroup = ''group-a'',
                    iOperatorID = ''OPR-001'', iStatus = ''committed'', iIsCommitted = True,
                    iTxHash = Some ''ab'', iSessionData = ''{}''\<rparr>],
                transactions :=
                  [\<lparr>tTxHash = ''ab'', tSessionID = ''dup-1'', tShardID = ''shard-a'',
                    tClientGroup = ''group-a'', tBlockHeight = 3, tTimestamp = 100,
                    tStatus = ''confirmed''\<rparr>]\<rparr>"

definition demo_l1env_rejecting :: "unit L1Env" where
  "demo_l1env_rejecting =
     demo_l1env\<lparr>BroadcastTxCommit :=
       (\<lambda>ctx tx. Some (5, Inl ''timed out waiting for tx to be included in a block''))\<rparr>"

definition demo_l1env_delete_fails :: "unit L1Env" where
  "demo_l1env_delete_fails = demo_l1env_rejecting\<lparr>db_fault := Some 5\<rparr>"

definition demo_l1env_never :: "unit L1Env" where
  "demo_l1env_never = demo_l1env\<lparr>BroadcastTxCommit := (\<lambda>ctx tx. None)\<rparr>"

section \<open>Properties\<close>

subsection \<open>Block height encoding\<close>

lemma ucast_signed_drop_bit_low:
  "k \<le> 56 \<Longrightarrow> (ucast (signed_drop_bit k (i :: int64)) :: byte) = ucast (drop_bit k i)"
  by (rule bit_word_eqI) (auto simp: bit_simps)

lemma bytesToInt64_int64ToBytes: "bytesToInt64 (int64ToBytes i) = i"
  unfolding bytesToInt64_def int64ToBytes_def
  apply (simp add: ucast_signed_drop_bit_low)
  apply (rule bit_word_eqI)
  apply (simp add: bit_simps less_diff_conv2 cong: conj_cong)
  apply (case_tac "bit i n")
   apply simp
   apply linarith
  apply simp
  done

text \<open>
  Claim C10. Decoding the eight-byte big-endian encoding of any \<open>int64\<close> gives the value
  back, and \<open>bytesToInt64\<close> of a slice shorter than eight bytes is 0 (the guard returns
  before any byte is read).
\<close>

theorem C10_int64_bytes_roundtrip:
  "bytesToInt64 (int64ToBytes i) = i \<and> (length buf < 8 \<longrightarrow> bytesToInt64 buf = 0)"
  by (simp add: bytesToInt64_int64ToBytes) (simp add: bytesToInt64_def)

theorem C10_int64_bytes_roundtrip_witness:
  "bytesToInt64 (int64ToBytes 258) = 258 \<and> int64ToBytes 258 = [0, 0, 0, 0, 0, 0, 1, 2] \<and>
   length [1, 2, 3 :: byte] < 8 \<and> bytesToInt64 [1, 2, 3] = 0"
  using C10_int64_bytes_roundtrip [of 258 "[1, 2, 3]"]
  by (simp add: int64ToBytes_def)

subsection \<open>Block finalization\<close>



lemma txn_Set_grows: "txn_Set rej t k v = (e, t') \<Longrightarrow> \<exists>w. t' = t @ w"
  by (auto simp: txn_Set_def split: option.splits)

lemma storeShardCommit_grows: "storeShardCommit rej t txID sc st raw = (r, t') \<Longrightarrow> \<exists>w. t' = t @ w"
  by (auto simp: storeShardCommit_def txn_Set_def Let_def split: option.splits prod.splits)

lemma FinalizeBlock_tx_grows: "FinalizeBlock_tx um sha rej t tx = (r, t') \<Longrightarrow> \<exists>w. t' = t @ w"
  by (auto simp: FinalizeBlock_tx_def Let_def split: sum.splits dest: storeShardCommit_grows)

lemma FinalizeBlock_txs_grows: "FinalizeBlock_txs um sha rej t txs = (rs, t') \<Longrightarrow> \<exists>w. t' = t @ w"
proof (induction txs arbitrary: t rs t')
  case Nil
  then show ?case by simp
next
  case (Cons tx txs)
  obtain r t1 where a: "FinalizeBlock_tx um sha rej t tx = (r, t1)" by fastforce
  obtain rs2 t2 where b: "FinalizeBlock_txs um sha rej t1 txs = (rs2, t2)" by fastforce
  from Cons.prems a b have "t' = t2" by simp
  moreover from a obtain w1 where "t1 = t @ w1" using FinalizeBlock_tx_grows by blast
  moreover from b obtain w2 where "t2 = t1 @ w2" using Cons.IH by blast
  ultimately show ?case by simp
qed

lemma FinalizeBlock_txs_length: "length (fst (FinalizeBlock_txs um sha rej t txs)) = length txs"
  by (induction txs arbitrary: t) (simp_all add: split_beta Let_def)

lemma FinalizeBlock_txs_append:
  "FinalizeBlock_txs um sha rej t (xs @ ys) =
     (let (r1, t1) = FinalizeBlock_txs um sha rej t xs;
          (r2, t2) = FinalizeBlock_txs um sha rej t1 ys
      in (r1 @ r2, t2))"
  by (induction xs arbitrary: t) (simp_all add: split_beta Let_def)



lemma hex_digit_high: "unat (drop_bit 4 (v :: byte)) < 16"
proof -
  have "unat (drop_bit 4 v) = unat v div 2 ^ 4"
    unfolding unat_drop_bit_eq by (simp only: drop_bit_eq_div)
  moreover have "unat v < 256"
    using unsigned_less [of v] by simp
  ultimately show ?thesis by simp
qed

lemma hex_digit_low: "unat ((v :: byte) AND 0x0f) < 16"
proof -
  have "v AND 0x0f = take_bit 4 v"
    by (simp add: take_bit_eq_mask mask_eq_exp_minus_1)
  moreover have "unat (take_bit 4 v) < 2 ^ 4"
    unfolding unsigned_take_bit_eq by (rule take_bit_nat_less_exp)
  ultimately show ?thesis by simp
qed

lemma EncodeToString_lowercase_hex: "set (EncodeToString src) \<subseteq> set ''0123456789abcdef''"
proof -
  have mem: "hextable ! n \<in> set hextable" if "n < 16" for n
    using that by (intro nth_mem) (simp add: hextable_def)
  have "set (EncodeToString src) \<subseteq> set hextable"
    by (auto simp: EncodeToString_def mem hex_digit_high hex_digit_low)
  then show ?thesis
    by (simp only: hextable_def)
qed


lemma shard_commit_keys_distinct:
  "distinct [to_bytes ''tx:'' @ to_bytes txID,
             to_bytes (''shard:'' @ shard @ '':session:'' @ session),
             to_bytes ''status:'' @ to_bytes txID]"
  by (simp add: to_bytes_def)

lemma storeShardCommit_accepted:
  assumes "rej t (to_bytes ''tx:'' @ to_bytes txID) raw = None"
    and "rej (t @ [(to_bytes ''tx:'' @ to_bytes txID, raw)])
           (to_bytes (''shard:'' @ ShardID sc @ '':session:'' @ SessionID sc)) raw = None"
    and "rej (t @ [(to_bytes ''tx:'' @ to_bytes txID, raw),
                   (to_bytes (''shard:'' @ ShardID sc @ '':session:'' @ SessionID sc), raw)])
           (to_bytes ''status:'' @ to_bytes txID) (to_bytes status) = None"
  shows "storeShardCommit rej t txID sc status raw =
     (\<lparr>Code = 0, Data = to_bytes txID, Log = status,
       Events = [\<lparr>EventType = ''l1_shard_commit'',
                  Attributes =
                    [\<lparr>Key = ''session_id'', Value = SessionID sc, Index = True\<rparr>,
                     \<lparr>Key = ''shard_id'', Value = ShardID sc, Index = True\<rparr>,
                     \<lparr>Key = ''client_group'', Value = ClientGroup sc, Index = True\<rparr>,
                     \<lparr>Key = ''tx_id'', Value = txID, Index = True\<rparr>,
                     \<lparr>Key = ''status'', Value = status, Index = True\<rparr>]\<rparr>]\<rparr>,
      t @ [(to_bytes ''tx:'' @ to_bytes txID, raw),
           (to_bytes (''shard:'' @ ShardID sc @ '':session:'' @ SessionID sc), raw),
           (to_bytes ''status:'' @ to_bytes txID, to_bytes status)])"
  using assms by (simp add: storeShardCommit_def txn_Set_def Let_def)

lemma FinalizeBlock_split:
  "FinalizeBlock um sha rej app \<lparr>Txs = pre @ tx # post, Height = h\<rparr> = (resp, app') \<Longrightarrow>
   FinalizeBlock_txs um sha rej [] pre = (r1, t1) \<Longrightarrow>
   FinalizeBlock_tx um sha rej t1 tx = (r, t2) \<Longrightarrow>
   TxResults resp ! length pre = r \<and> (\<exists>later. onGoingBlock app' = Some (t2 @ later))"
proof -
  assume fin: "FinalizeBlock um sha rej app \<lparr>Txs = pre @ tx # post, Height = h\<rparr> = (resp, app')"
    and p: "FinalizeBlock_txs um sha rej [] pre = (r1, t1)"
    and x: "FinalizeBlock_tx um sha rej t1 tx = (r, t2)"
  obtain r3 t3 where q: "FinalizeBlock_txs um sha rej t2 post = (r3, t3)" by fastforce
  obtain e4 t4 where s1:
    "txn_Set rej t3 (to_bytes ''last_block_height'') (int64ToBytes h) = (e4, t4)" by fastforce
  obtain e5 t5 where s2:
    "txn_Set rej t4 (to_bytes ''last_block_app_hash'') (calculateAppHash sha (r1 @ r # r3)) = (e5, t5)"
    by fastforce
  have all: "FinalizeBlock_txs um sha rej [] (pre @ tx # post) = (r1 @ r # r3, t3)"
    by (simp add: FinalizeBlock_txs_append p x q)
  from fin all s1 s2 have resp: "TxResults resp = r1 @ r # r3" and app': "onGoingBlock app' = Some t5"
    by (auto simp: FinalizeBlock_def Let_def)
  have "length r1 = length pre"
    using FinalizeBlock_txs_length [of um sha rej "[]" pre] p by simp
  then have a: "TxResults resp ! length pre = r"
    by (simp add: resp nth_append)
  obtain w3 where "t3 = t2 @ w3" using q FinalizeBlock_txs_grows by blast
  moreover obtain w4 where "t4 = t3 @ w4" using s1 txn_Set_grows by blast
  moreover obtain w5 where "t5 = t4 @ w5" using s2 txn_Set_grows by blast
  ultimately have "t5 = t2 @ (w3 @ w4 @ w5)" by simp
  with a app' show ?thesis by blast
qed

text \<open>
  Claim C3, as amended. For a transaction that parses, at any position of a block: \<open>tx_id\<close>
  is the lower-case hexadecimal encoding of SHA-256 of \<open>session_id\<close> followed by \<open>shard_id\<close>; when
  the store accepts the three writes, the transaction appends to the block's single write
  transaction exactly the writes \<open>tx:<tx_id>\<close> (raw bytes), \<open>shard:<shard_id>:session:<session_id>\<close>
  (raw bytes) and \<open>status:<tx_id>\<close> (\<open>accepted\<close>), three different keys, which are still
  there at the end of the block; and its result has code 0 and one event whose attributes
  \<open>session_id\<close>, \<open>shard_id\<close>, \<open>client_group\<close>, \<open>tx_id\<close>, \<open>status\<close> are all indexed.
\<close>

theorem C3_finalize_writes_three_keys:
  fixes sc :: "'d ShardedCommitRequest"
  defines "txKey \<equiv> \<lambda>txID. to_bytes ''tx:'' @ to_bytes txID"
    and "shardKey \<equiv> \<lambda>sc :: 'd ShardedCommitRequest.
           to_bytes (''shard:'' @ ShardID sc @ '':session:'' @ SessionID sc)"
    and "statusKey \<equiv> \<lambda>txID. to_bytes ''status:'' @ to_bytes txID"
  assumes fin: "FinalizeBlock um sha rej app \<lparr>Txs = pre @ tx # post, Height = h\<rparr> = (resp, app')"
    and wf: "um tx = Inr sc"
    and txID: "txID = EncodeToString (sha (to_bytes (SessionID sc @ ShardID sc)))"
    and before: "t0 = snd (FinalizeBlock_txs um sha rej [] pre)"
    and acc1: "rej t0 (txKey txID) tx = None"
    and acc2: "rej (t0 @ [(txKey txID, tx)]) (shardKey sc) tx = None"
    and acc3: "rej (t0 @ [(txKey txID, tx), (shardKey sc, tx)]) (statusKey txID)
                 (to_bytes ''accepted'') = None"
  shows "generateTxID sha (SessionID sc) (ShardID sc) = txID \<and>
         set txID \<subseteq> set ''0123456789abcdef'' \<and>
         snd (FinalizeBlock_txs um sha rej [] (pre @ [tx])) =
           t0 @ [(txKey txID, tx), (shardKey sc, tx), (statusKey txID, to_bytes ''accepted'')] \<and>
         (\<exists>later. onGoingBlock app' =
            Some (t0 @ [(txKey txID, tx), (shardKey sc, tx), (statusKey txID, to_bytes ''accepted'')]
                  @ later)) \<and>
         distinct [txKey txID, shardKey sc, statusKey txID] \<and>
         TxResults resp ! length pre =
           \<lparr>Code = 0, Data = to_bytes txID, Log = ''accepted'',
            Events = [\<lparr>EventType = ''l1_shard_commit'',
                       Attributes =
                         [\<lparr>Key = ''session_id'', Value = SessionID sc, Index = True\<rparr>,
                          \<lparr>Key = ''shard_id'', Value = ShardID sc, Index = True\<rparr>,
                          \<lparr>Key = ''client_group'', Value = ClientGroup sc, Index = True\<rparr>,
                          \<lparr>Key = ''tx_id'', Value = txID, Index = True\<rparr>,
                          \<lparr>Key = ''status'', Value = ''accepted'', Index = True\<rparr>]\<rparr>]\<rparr>"
proof -
  let ?w = "[(txKey txID, tx), (shardKey sc, tx), (statusKey txID, to_bytes ''accepted'')]"
  let ?r = "\<lparr>Code = 0, Data = to_bytes txID, Log = ''accepted'',
            Events = [\<lparr>EventType = ''l1_shard_commit'',
                       Attributes =
                         [\<lparr>Key = ''session_id'', Value = SessionID sc, Index = True\<rparr>,
                          \<lparr>Key = ''shard_id'', Value = ShardID sc, Index = True\<rparr>,
                          \<lparr>Key = ''client_group'', Value = ClientGroup sc, Index = True\<rparr>,
                          \<lparr>Key = ''tx_id'', Value = txID, Index = True\<rparr>,
                          \<lparr>Key = ''status'', Value = ''accepted'', Index = True\<rparr>]\<rparr>]\<rparr>"
  have gen: "generateTxID sha (SessionID sc) (ShardID sc) = txID"
    by (simp add: generateTxID_def txID)
  have hex: "set txID \<subseteq> set ''0123456789abcdef''"
    unfolding txID by (rule EncodeToString_lowercase_hex)
  have store: "storeShardCommit rej t0 txID sc ''accepted'' tx = (?r, t0 @ ?w)"
    using acc1 acc2 acc3 unfolding txKey_def shardKey_def statusKey_def
    by (rule storeShardCommit_accepted)
  have one: "FinalizeBlock_tx um sha rej t0 tx = (?r, t0 @ ?w)"
    by (simp add: FinalizeBlock_tx_def wf gen store)
  obtain r1 where pre: "FinalizeBlock_txs um sha rej [] pre = (r1, t0)"
    using before by (cases "FinalizeBlock_txs um sha rej [] pre") simp
  have upto: "snd (FinalizeBlock_txs um sha rej [] (pre @ [tx])) = t0 @ ?w"
    by (simp add: FinalizeBlock_txs_append pre one)
  have blk: "TxResults resp ! length pre = ?r \<and> (\<exists>later. onGoingBlock app' = Some ((t0 @ ?w) @ later))"
    using fin pre one by (rule FinalizeBlock_split)
  have dist: "distinct [txKey txID, shardKey sc, statusKey txID]"
    unfolding txKey_def shardKey_def statusKey_def by (rule shard_commit_keys_distinct)
  from gen hex upto blk dist show ?thesis by simp
qed


lemma accept_all_None: "accept_all t k v = None"
  by (simp add: accept_all_def)


text \<open>
  Claim C3 as stated fails when the store refuses a write. On a store whose write
  transaction takes one write, a block with one well-formed transaction writes the key
  \<open>tx:5345\<close>; the writes of the \<open>shard:\<close> key and of the \<open>status:\<close> key are refused, which the code
  only logs. The transaction still gets code 0 and the event with status \<open>accepted\<close>, and
  the write transaction of the block holds one key, not three.
\<close>

theorem C3_refused_writes_counterexample:
  "demo_unmarshal [1] = Inr demo_commit \<and>
   TxResults (fst (FinalizeBlock demo_unmarshal demo_sha (demo_small_store 1) demo_app
                     \<lparr>Txs = [[1]], Height = 7\<rparr>)) =
     [\<lparr>Code = 0, Data = to_bytes ''5345'', Log = ''accepted'',
       Events = [\<lparr>EventType = ''l1_shard_commit'',
                  Attributes =
                    [\<lparr>Key = ''session_id'', Value = ''SES-1'', Index = True\<rparr>,
                     \<lparr>Key = ''shard_id'', Value = ''shard-a'', Index = True\<rparr>,
                     \<lparr>Key = ''client_group'', Value = ''group-a'', Index = True\<rparr>,
                     \<lparr>Key = ''tx_id'', Value = ''5345'', Index = True\<rparr>,
                     \<lparr>Key = ''status'', Value = ''accepted'', Index = True\<rparr>]\<rparr>]\<rparr>] \<and>
   onGoingBlock (snd (FinalizeBlock demo_unmarshal demo_sha (demo_small_store 1) demo_app
                        \<lparr>Txs = [[1]], Height = 7\<rparr>)) =
     Some [(to_bytes ''tx:5345'', [1])]"
proof -
  let ?F = "FinalizeBlock demo_unmarshal demo_sha (demo_small_store 1) demo_app \<lparr>Txs = [[1]], Height = 7\<rparr>"
  have F: "?F =
      (\<lparr>TxResults =
          [\<lparr>Code = 0, Data = to_bytes ''5345'', Log = ''accepted'',
            Events = [\<lparr>EventType = ''l1_shard_commit'',
                       Attributes =
                         [\<lparr>Key = ''session_id'', Value = ''SES-1'', Index = True\<rparr>,
                          \<lparr>Key = ''shard_id'', Value = ''shard-a'', Index = True\<rparr>,
                          \<lparr>Key = ''client_group'', Value = ''group-a'', Index = True\<rparr>,
                          \<lparr>Key = ''tx_id'', Value = ''5345'', Index = True\<rparr>,
                          \<lparr>Key = ''status'', Value = ''accepted'', Index = True\<rparr>]\<rparr>]\<rparr>],
        AppHash = to_bytes ''53''\<rparr>,
       demo_app\<lparr>onGoingBlock := Some [(to_bytes ''tx:5345'', [1])]\<rparr>)"
    by (simp add: FinalizeBlock_def FinalizeBlock_tx_def demo_unmarshal_def demo_commit_def
        generateTxID_def demo_sha_def storeShardCommit_def txn_Set_def demo_small_store_def
        calculateAppHash_def EncodeToString_def hextable_def Let_def to_bytes_def)
  have a: "demo_unmarshal [1] = Inr demo_commit"
    by (simp add: demo_unmarshal_def)
  have b: "TxResults (fst ?F) =
     [\<lparr>Code = 0, Data = to_bytes ''5345'', Log = ''accepted'',
       Events = [\<lparr>EventType = ''l1_shard_commit'',
                  Attributes =
                    [\<lparr>Key = ''session_id'', Value = ''SES-1'', Index = True\<rparr>,
                     \<lparr>Key = ''shard_id'', Value = ''shard-a'', Index = True\<rparr>,
                     \<lparr>Key = ''client_group'', Value = ''group-a'', Index = True\<rparr>,
                     \<lparr>Key = ''tx_id'', Value = ''5345'', Index = True\<rparr>,
                     \<lparr>Key = ''status'', Value = ''accepted'', Index = True\<rparr>]\<rparr>]\<rparr>]"
    by (subst F) simp
  have c: "onGoingBlock (snd ?F) = Some [(to_bytes ''tx:5345'', [1])]"
    by (subst F) simp
  from a b c show ?thesis by (intro conjI)
qed


theorem C3_finalize_writes_three_keys_witness:
  "let F = FinalizeBlock demo_unmarshal demo_sha accept_all demo_app \<lparr>Txs = [[2]] @ [1] # [], Height = 7\<rparr>
   in demo_unmarshal [1] = Inr demo_commit \<and>
      generateTxID demo_sha ''SES-1'' ''shard-a'' = ''5345'' \<and>
      snd (FinalizeBlock_txs demo_unmarshal demo_sha accept_all [] [[2]]) = [] \<and>
      onGoingBlock (snd F) =
        Some ([(to_bytes ''tx:5345'', [1]),
               (to_bytes ''shard:shard-a:session:SES-1'', [1]),
               (to_bytes ''status:5345'', to_bytes ''accepted''),
               (to_bytes ''last_block_height'', [0, 0, 0, 0, 0, 0, 0, 7]),
               (to_bytes ''last_block_app_hash'', AppHash (fst F))]) \<and>
      Code (TxResults (fst F) ! 1) = 0 \<and> Data (TxResults (fst F) ! 1) = to_bytes ''5345''"
proof -
  let ?F = "FinalizeBlock demo_unmarshal demo_sha accept_all demo_app \<lparr>Txs = [[2]] @ [1] # [], Height = 7\<rparr>"
  have fin: "?F = (fst ?F, snd ?F)" by simp
  have wf: "demo_unmarshal [1] = Inr demo_commit"
    by (simp add: demo_unmarshal_def)
  have txID: "''5345'' = EncodeToString (demo_sha (to_bytes (SessionID demo_commit @ ShardID demo_commit)))"
    by (simp add: demo_commit_def demo_sha_def EncodeToString_def hextable_def to_bytes_def)
  have before: "[] = snd (FinalizeBlock_txs demo_unmarshal demo_sha accept_all [] [[2]])"
    by (simp add: FinalizeBlock_tx_def demo_unmarshal_def)
  note c3 = C3_finalize_writes_three_keys [OF fin wf txID before accept_all_None accept_all_None accept_all_None]
  have og: "onGoingBlock (snd ?F) =
        Some ([(to_bytes ''tx:5345'', [1]),
               (to_bytes ''shard:shard-a:session:SES-1'', [1]),
               (to_bytes ''status:5345'', to_bytes ''accepted''),
               (to_bytes ''last_block_height'', [0, 0, 0, 0, 0, 0, 0, 7]),
               (to_bytes ''last_block_app_hash'', AppHash (fst ?F))])"
    by (simp add: FinalizeBlock_def FinalizeBlock_tx_def demo_unmarshal_def demo_commit_def
        generateTxID_def demo_sha_def storeShardCommit_def txn_Set_def accept_all_def
        EncodeToString_def hextable_def Let_def to_bytes_def int64ToBytes_def)
  from c3 have "generateTxID demo_sha (SessionID demo_commit) (ShardID demo_commit) = ''5345''"
    and "TxResults (fst ?F) ! length [[2 :: byte]] =
           \<lparr>Code = 0, Data = to_bytes ''5345'', Log = ''accepted'',
            Events = [\<lparr>EventType = ''l1_shard_commit'',
                       Attributes =
                         [\<lparr>Key = ''session_id'', Value = SessionID demo_commit, Index = True\<rparr>,
                          \<lparr>Key = ''shard_id'', Value = ShardID demo_commit, Index = True\<rparr>,
                          \<lparr>Key = ''client_group'', Value = ClientGroup demo_commit, Index = True\<rparr>,
                          \<lparr>Key = ''tx_id'', Value = ''5345'', Index = True\<rparr>,
                          \<lparr>Key = ''status'', Value = ''accepted'', Index = True\<rparr>]\<rparr>]\<rparr>"
    by blast+
  then have g: "generateTxID demo_sha ''SES-1'' ''shard-a'' = ''5345''"
    and r: "Code (TxResults (fst ?F) ! 1) = 0 \<and> Data (TxResults (fst ?F) ! 1) = to_bytes ''5345''"
    by (simp_all add: demo_commit_def)
  from wf g before og r show ?thesis
    unfolding Let_def by simp
qed


subsection \<open>Identifiers of the L2 workflow\<close>







lemma uuid_zero: "uuid_String (uuid_New (replicate 16 0)) = ''00000000-0000-4000-8000-000000000000''"
  by code_simp





subsection \<open>The L2 router\<close>


















subsection \<open>Committed sessions of the L2 store\<close>

lemma CreateSession_inv:
  "committed_has_l1_info db \<Longrightarrow> committed_has_l1_info (snd (CreateSession db flt rnd operatorID))"
  by (simp add: CreateSession_def committed_has_l1_info_def Let_def)

lemma ScanPackage_inv:
  "committed_has_l1_info db \<Longrightarrow> committed_has_l1_info (snd (ScanPackage db flt sessionID packageID))"
  by (auto simp: ScanPackage_def committed_has_l1_info_def Let_def list_all_iff split: option.splits)

lemma ValidatePackage_inv:
  "committed_has_l1_info db \<Longrightarrow>
   committed_has_l1_info (snd (ValidatePackage db flt signature packageID sessionID))"
  by (auto simp: ValidatePackage_def committed_has_l1_info_def Let_def split: option.splits)

lemma QualityCheck_inv:
  "committed_has_l1_info db \<Longrightarrow>
   committed_has_l1_info (snd (QualityCheck marshal db flt rnd sessionID passed issues))"
  by (auto simp: QualityCheck_def committed_has_l1_info_def Let_def split: option.splits)

lemma LabelPackage_inv:
  "committed_has_l1_info db \<Longrightarrow>
   committed_has_l1_info (snd (LabelPackage db flt rnd1 rnd2 sessionID courierID))"
  by (auto simp: LabelPackage_def committed_has_l1_info_def Let_def list_all_iff split: option.splits)

lemma MarkSessionCommitted_inv:
  "committed_has_l1_info db \<Longrightarrow>
   committed_has_l1_info (snd (MarkSessionCommitted db flt now sessionID txHash blockHeight))"
  by (auto simp: MarkSessionCommitted_def committed_has_l1_info_def list_all_iff)

lemma MarkSessionCommitted_sets:
  assumes "flt \<noteq> Some 1"
    and "s \<in> set (sessions (snd (MarkSessionCommitted db flt now sessionID txHash blockHeight)))"
    and "sID s = sessionID"
  shows "sIsCommitted s \<and> sStatus s = ''committed'' \<and> sL1TxHash s = Some txHash \<and>
         sL1BlockHeight s = Some blockHeight \<and> sL1CommitTime s = Some now"
proof -
  let ?f = "\<lambda>s. if sID s = sessionID
                then s\<lparr>sIsCommitted := True, sStatus := ''committed'',
                       sL1TxHash := Some txHash, sL1BlockHeight := Some blockHeight,
                       sL1CommitTime := Some now\<rparr>
                else s"
  from assms(1,2) have "s \<in> ?f ` set (sessions db)"
    by (simp add: MarkSessionCommitted_def)
  then obtain s0 where s0: "s = ?f s0" by (rule imageE)
  show ?thesis
  proof (cases "sID s0 = sessionID")
    case True
    with s0 show ?thesis by simp
  next
    case False
    with s0 have "s = s0" by simp
    with False assms(3) show ?thesis by simp
  qed
qed

lemma l2_reachable_inv: "l2_reachable db \<Longrightarrow> committed_has_l1_info db"
proof (induction rule: l2_reachable.induct)
  case (fresh db)
  then show ?case by (simp add: committed_has_l1_info_def)
qed (simp_all add: CreateSession_inv ScanPackage_inv ValidatePackage_inv QualityCheck_inv
      LabelPackage_inv MarkSessionCommitted_inv)

lemma GetSession_member:
  "GetSession db flt sessionID = Inr session \<Longrightarrow> session \<in> set (sessions db)"
  by (auto simp: GetSession_def find_Some_iff split: if_splits option.splits dest: nth_mem)

lemma CommitSessionHandler_no_panic:
  assumes "committed_has_l1_info db"
  shows "fst (CommitSessionHandler l1 sr db flt_get flt_mark now req) \<noteq> Panic"
proof (cases "GetSession db flt_get (Split (Path req) CHR ''/'' ! 2)")
  case (Inl e)
  then show ?thesis
    by (simp add: CommitSessionHandler_def Let_def)
next
  case (Inr session)
  then have "session \<in> set (sessions db)" by (rule GetSession_member)
  with assms have "sIsCommitted session \<longrightarrow> sL1TxHash session \<noteq> None"
    by (auto simp: committed_has_l1_info_def list_all_iff)
  with Inr show ?thesis
    by (auto simp: CommitSessionHandler_def Let_def split: sum.splits option.splits prod.splits)
qed

lemma CommitSessionHandler_db:
  "snd (CommitSessionHandler l1 sr db flt_get flt_mark now req) = db \<or>
   (\<exists>sessionID txHash blockHeight.
      snd (CommitSessionHandler l1 sr db flt_get flt_mark now req) =
      snd (MarkSessionCommitted db flt_mark now sessionID txHash blockHeight))"
  by (auto simp: CommitSessionHandler_def Let_def split: sum.splits option.splits prod.splits)
    (metis snd_conv)+

lemma CommitSessionHandler_reachable:
  "l2_reachable db \<Longrightarrow> l2_reachable (snd (CommitSessionHandler l1 sr db flt_get flt_mark now req))"
  using CommitSessionHandler_db [of l1 sr db flt_get flt_mark now req]
  by (auto intro: l2_reachable.mark)

lemma only_writer:
  "map sIsCommitted (sessions (snd (ScanPackage db flt sessionID packageID))) = map sIsCommitted (sessions db)"
  "map sIsCommitted (sessions (snd (ValidatePackage db flt signature packageID sessionID))) = map sIsCommitted (sessions db)"
  "map sIsCommitted (sessions (snd (QualityCheck marshal db flt rnd sessionID passed issues))) = map sIsCommitted (sessions db)"
  "map sIsCommitted (sessions (snd (LabelPackage db flt rnd1 rnd2 sessionID courierID))) = map sIsCommitted (sessions db)"
  "filter sIsCommitted (sessions (snd (CreateSession db flt rnd operatorID))) = filter sIsCommitted (sessions db)"
  by (auto simp: ScanPackage_def ValidatePackage_def QualityCheck_def LabelPackage_def CreateSession_def
      Let_def comp_def split: option.splits)

text \<open>
  Claim C9. Every operation of the L2 store preserves the invariant that a session with
  \<open>is_committed\<close> set has its L1 transaction hash and block height; the operations other than
  \<open>MarkSessionCommitted\<close> leave the column \<open>is_committed\<close> of every row as it was (a new
  session is created with the column unset), and \<open>MarkSessionCommitted\<close> sets the flag, the
  status, the hash, the height and the time of the rows of the session in one update;
  hence the invariant holds in every reachable
  state, and there the commit handler never dereferences a null \<open>l1_tx_hash\<close>, and leaves a
  reachable state behind.
\<close>

theorem C9_committed_sessions_have_l1_info:
  "(committed_has_l1_info db \<longrightarrow>
      committed_has_l1_info (snd (CreateSession db flt rnd operatorID)) \<and>
      committed_has_l1_info (snd (ScanPackage db flt sessionID packageID)) \<and>
      committed_has_l1_info (snd (ValidatePackage db flt signature packageID sessionID)) \<and>
      committed_has_l1_info (snd (QualityCheck marshal db flt rnd sessionID passed issues)) \<and>
      committed_has_l1_info (snd (LabelPackage db flt rnd rnd2 sessionID courierID)) \<and>
      committed_has_l1_info (snd (MarkSessionCommitted db flt now sessionID txHash blockHeight)) \<and>
      fst (CommitSessionHandler l1 sr db flt flt2 now req) \<noteq> Panic) \<and>
   map sIsCommitted (sessions (snd (ScanPackage db flt sessionID packageID))) = map sIsCommitted (sessions db) \<and>
   map sIsCommitted (sessions (snd (ValidatePackage db flt signature packageID sessionID))) =
     map sIsCommitted (sessions db) \<and>
   map sIsCommitted (sessions (snd (QualityCheck marshal db flt rnd sessionID passed issues))) =
     map sIsCommitted (sessions db) \<and>
   map sIsCommitted (sessions (snd (LabelPackage db flt rnd rnd2 sessionID courierID))) =
     map sIsCommitted (sessions db) \<and>
   filter sIsCommitted (sessions (snd (CreateSession db flt rnd operatorID))) =
     filter sIsCommitted (sessions db) \<and>
   (flt \<noteq> Some 1 \<longrightarrow>
      (\<forall>s \<in> set (sessions (snd (MarkSessionCommitted db flt now sessionID txHash blockHeight))).
         sID s = sessionID \<longrightarrow>
           sIsCommitted s \<and> sStatus s = ''committed'' \<and> sL1TxHash s = Some txHash \<and>
           sL1BlockHeight s = Some blockHeight \<and> sL1CommitTime s = Some now)) \<and>
   (l2_reachable db \<longrightarrow>
      committed_has_l1_info db \<and>
      fst (CommitSessionHandler l1 sr db flt flt2 now req) \<noteq> Panic \<and>
      l2_reachable (snd (CommitSessionHandler l1 sr db flt flt2 now req)))"
proof -
  have marks: "flt \<noteq> Some 1 \<longrightarrow>
      (\<forall>s \<in> set (sessions (snd (MarkSessionCommitted db flt now sessionID txHash blockHeight))).
         sID s = sessionID \<longrightarrow>
           sIsCommitted s \<and> sStatus s = ''committed'' \<and> sL1TxHash s = Some txHash \<and>
           sL1BlockHeight s = Some blockHeight \<and> sL1CommitTime s = Some now)"
    by (intro impI ballI) (rule MarkSessionCommitted_sets)
  have reach: "l2_reachable db \<longrightarrow>
      committed_has_l1_info db \<and>
      fst (CommitSessionHandler l1 sr db flt flt2 now req) \<noteq> Panic \<and>
      l2_reachable (snd (CommitSessionHandler l1 sr db flt flt2 now req))"
    by (intro impI conjI l2_reachable_inv CommitSessionHandler_no_panic
        CommitSessionHandler_reachable)
  have ops: "committed_has_l1_info db \<longrightarrow>
      committed_has_l1_info (snd (CreateSession db flt rnd operatorID)) \<and>
      committed_has_l1_info (snd (ScanPackage db flt sessionID packageID)) \<and>
      committed_has_l1_info (snd (ValidatePackage db flt signature packageID sessionID)) \<and>
      committed_has_l1_info (snd (QualityCheck marshal db flt rnd sessionID passed issues)) \<and>
      committed_has_l1_info (snd (LabelPackage db flt rnd rnd2 sessionID courierID)) \<and>
      committed_has_l1_info (snd (MarkSessionCommitted db flt now sessionID txHash blockHeight)) \<and>
      fst (CommitSessionHandler l1 sr db flt flt2 now req) \<noteq> Panic"
    by (intro impI conjI CreateSession_inv ScanPackage_inv ValidatePackage_inv QualityCheck_inv
        LabelPackage_inv MarkSessionCommitted_inv CommitSessionHandler_no_panic)
  from ops marks reach show ?thesis
    by (intro conjI only_writer)
qed

lemma demo_committed_db_eq:
  "demo_committed_db =
     demo_l2db\<lparr>sessions := [\<lparr>sID = ''SES-00000000'', sOperatorID = ''OPR-001'', sStatus = ''committed'',
        sIsCommitted = True, sPackageID = None, sL1TxHash = Some ''ABCD'', sL1BlockHeight = Some 5,
        sL1CommitTime = Some 100\<rparr>]\<rparr>"
  by (simp add: demo_committed_db_def MarkSessionCommitted_def CreateSession_def uuid_zero
      demo_l2db_def Let_def)

theorem C9_committed_sessions_have_l1_info_witness:
  "l2_reachable demo_committed_db \<and>
   committed_has_l1_info demo_committed_db \<and>
   map sIsCommitted (sessions demo_committed_db) = [True] \<and>
   CommitSessionHandler demo_l1_down demo_sr demo_committed_db None None 101
     \<lparr>Method = ''POST'', Path = ''/session/SES-00000000/commit'', ReqBody = [], ReqHeaders = Map.empty\<rparr>
   = (Returns (Some \<lparr>StatusCode = 409, Headers = defaultHeaders,
                    Body = ''{\"error\":\"Session already committed\",\"tx_hash\":\"ABCD\"}''\<rparr>, None),
      demo_committed_db)"
proof -
  let ?req = "\<lparr>Method = ''POST'', Path = ''/session/SES-00000000/commit'', ReqBody = [], ReqHeaders = Map.empty\<rparr>"
  have "l2_reachable demo_l2db"
    by (rule l2_reachable.fresh) (simp_all add: demo_l2db_def)
  then have r: "l2_reachable demo_committed_db"
    unfolding demo_committed_db_def by (intro l2_reachable.mark l2_reachable.create)
  have i: "committed_has_l1_info demo_committed_db"
    and np: "fst (CommitSessionHandler demo_l1_down demo_sr demo_committed_db None None 101 ?req) \<noteq> Panic"
    using C9_committed_sessions_have_l1_info [where db = demo_committed_db and flt = None
        and now = 101 and ?l1.0 = demo_l1_down and sr = demo_sr and ?flt2.0 = None and req = ?req,
        THEN conjunct2, THEN conjunct2, THEN conjunct2, THEN conjunct2, THEN conjunct2,
        THEN conjunct2, THEN conjunct2, THEN mp, OF r]
    by (rule conjunct1, rule conjunct2 [THEN conjunct1])
  have m: "map sIsCommitted (sessions demo_committed_db) = [True]"
    by (simp add: demo_committed_db_eq)
  have h: "CommitSessionHandler demo_l1_down demo_sr demo_committed_db None None 101 ?req
     = (Returns (Some \<lparr>StatusCode = 409, Headers = defaultHeaders,
                    Body = ''{\"error\":\"Session already committed\",\"tx_hash\":\"ABCD\"}''\<rparr>, None),
      demo_committed_db)"
    by (simp add: CommitSessionHandler_def GetSession_def demo_committed_db_eq Let_def)
  from r i m h show ?thesis by (intro conjI)
qed

subsection \<open>The L1 commit pipeline\<close>

lemma demo_route:
  "L1_GetHandlerForPath (demo_l1sr env) ''POST'' ''/l1/commit'' = Some (ReceiveShardCommitHandler demo_parse env)"
  by (simp add: L1_GetHandlerForPath_def demo_l1sr_def L1_RegisterHandler_def ToUpper_def exact_route_def Let_def)

lemma demo_convert:
  "ConvertHttpRequestToConsensusRequest demo_lib 100 (demo_commit_request ctx) ''07'' =
     Inr \<lparr>Method = ''POST'', Path = ''/l1/commit'', ReqBody = ''commit dup-1'', ReqHeaders = Map.empty,
          RemoteAddr = ''10.0.0.7:4242'', RequestID = ''07'', ReqTimestamp = 100\<rparr>"
  by (simp add: ConvertHttpRequestToConsensusRequest_def demo_commit_request_def demo_lib_def compactJSON_def)

lemma demo_request_id: "generateRequestID demo_lib = Inr ''07''"
  by (simp add: generateRequestID_def demo_lib_def EncodeToString_def hextable_def)

lemma demo_consensus:
  "RunConsensus demo_l1env Background demo_dup = Some (Inr \<lparr>cTxHash = ''ab'', cBlockHeight = 3, cCode = 0\<rparr>)"
  by (simp add: RunConsensus_def demo_l1env_def ctx_Done_def consensus_outcome_def EncodeToString_def hextable_def)

lemma demo_dup_fields:
  "ShardID demo_dup = ''shard-a''" "ClientGroup demo_dup = ''group-a''" "SessionID demo_dup = ''dup-1''"
  "OperatorID demo_dup = ''OPR-001''" "SessionData demo_dup = ()"
  by (simp_all add: demo_dup_def)

lemma demo_receive_first:
  "ReceiveShardCommit demo_l1env demo_l1db demo_dup =
     Some (Inr \<lparr>tTxHash = ''ab'', tSessionID = ''dup-1'', tShardID = ''shard-a'',
                    tClientGroup = ''group-a'', tBlockHeight = 3, tTimestamp = 100,
                    tStatus = ''confirmed''\<rparr>, demo_l1db_committed)"
proof -
  have env: "db_fault demo_l1env = None" "clock demo_l1env = 100"
    "marshal_session_data demo_l1env d = Inr ''{}''" for d
    by (simp_all add: demo_l1env_def)
  show ?thesis
    by (simp add: ReceiveShardCommit_def demo_consensus env Let_def demo_l1db_def demo_dup_fields
        demo_l1db_committed_def save_session_def)
qed

lemma demo_receive_second:
  "ReceiveShardCommit demo_l1env demo_l1db_committed demo_dup =
     Some (Inl \<lparr>ErrCode = ''SESSION_EXISTS'', Message = ''Session already exists'',
                Detail = ''Session dup-1 already committed''\<rparr>, demo_l1db_committed)"
proof -
  have env: "db_fault demo_l1env = None" "marshal_session_data demo_l1env d = Inr ''{}''" for d
    by (simp_all add: demo_l1env_def)
  show ?thesis
    by (simp add: ReceiveShardCommit_def env Let_def demo_l1db_def demo_dup_fields demo_l1db_committed_def)
qed

lemma demo_handler_second:
  "ReceiveShardCommitHandler demo_parse demo_l1env
     \<lparr>Method = ''POST'', Path = ''/l1/commit'', ReqBody = ''commit dup-1'', ReqHeaders = Map.empty,
      RemoteAddr = ''10.0.0.7:4242'', RequestID = ''07'', ReqTimestamp = 100\<rparr> demo_l1db_committed =
   Some ((Some \<lparr>StatusCode = 409, Headers = defaultHeaders,
                Body = ''{\"error\":\"Session dup-1 already committed\"}''\<rparr>,
          Some ''session exists: Session dup-1 already committed''), demo_l1db_committed)"
  by (simp add: ReceiveShardCommitHandler_def demo_parse_def demo_receive_second demo_dup_fields)

lemma demo_handler_first:
  "ReceiveShardCommitHandler demo_parse demo_l1env
     \<lparr>Method = ''POST'', Path = ''/l1/commit'', ReqBody = ''commit dup-1'', ReqHeaders = Map.empty,
      RemoteAddr = ''10.0.0.7:4242'', RequestID = ''07'', ReqTimestamp = 100\<rparr> demo_l1db =
   Some ((Some \<lparr>StatusCode = 202, Headers = defaultHeaders,
                Body = ''{\"message\": \"Shard commit processed successfully\",\"tx_hash\": \"ab\",''
                       @ ''\"session_id\": \"dup-1\",\"shard_id\": \"shard-a\",\"block_height\": 3}''\<rparr>,
          None), demo_l1db_committed)"
  by (simp add: ReceiveShardCommitHandler_def demo_parse_def demo_receive_first demo_dup_fields
      format_int_def decimal.simps)

lemma demo_handle_first:
  "handleL1API demo_lib 100 (demo_l1sr demo_l1env) (demo_commit_request ctx) demo_l1db =
     Some (Returns \<lparr>wStatus = 202,
                    wBody = Wrapped (''{\"message\": \"Shard commit processed successfully\",\"tx_hash\": \"ab\",''
                                     @ ''\"session_id\": \"dup-1\",\"shard_id\": \"shard-a\",\"block_height\": 3}'')
                              ''confirmed'' ''ab''\<rparr>, demo_l1db_committed)"
  by (simp add: handleL1API_def demo_request_id demo_convert L1_GenerateResponse_def demo_route
      demo_handler_first)
    (simp add: demo_commit_request_def demo_lib_def HasPrefix_def)

lemma demo_handle_second:
  "handleL1API demo_lib 100 (demo_l1sr demo_l1env) (demo_commit_request ctx) demo_l1db_committed =
     Some (Returns \<lparr>wStatus = 422,
                    wBody = ErrorJSON ''Failed to generate response: session exists: Session dup-1 already committed''\<rparr>,
           demo_l1db_committed)"
  by (simp add: handleL1API_def demo_request_id demo_convert L1_GenerateResponse_def demo_route
      demo_handler_second)

text \<open>
  Claim C1 says that a commit request for a session whose index row exists is answered with
  status 409. The repository and the handler do their part: the first request inserts the
  row and goes to consensus, the second meets the unique violation, and the handler builds
  a response with status 409. But the handler returns that response together with an error,
  and \<open>handleL1API\<close> answers every error of a handler with status 422. On the registry with
  the commit route, two requests for the session \<open>dup-1\<close> of the registered shard
  \<open>shard-a\<close>: the first is answered 202 and leaves the index row and the transaction row;
  for the second the handler returns the 409 response and the error, and the HTTP surface
  writes 422.
\<close>

theorem C1_duplicate_commit_status:
  "handleL1API demo_lib 100 (demo_l1sr demo_l1env) (demo_commit_request Background) demo_l1db =
     Some (Returns \<lparr>wStatus = 202,
                    wBody = Wrapped (''{\"message\": \"Shard commit processed successfully\",\"tx_hash\": \"ab\",''
                                     @ ''\"session_id\": \"dup-1\",\"shard_id\": \"shard-a\",\"block_height\": 3}'')
                              ''confirmed'' ''ab''\<rparr>, demo_l1db_committed) \<and>
   ReceiveShardCommitHandler demo_parse demo_l1env
     \<lparr>Method = ''POST'', Path = ''/l1/commit'', ReqBody = ''commit dup-1'', ReqHeaders = Map.empty,
      RemoteAddr = ''10.0.0.7:4242'', RequestID = ''07'', ReqTimestamp = 100\<rparr> demo_l1db_committed =
     Some ((Some \<lparr>StatusCode = 409, Headers = defaultHeaders,
                  Body = ''{\"error\":\"Session dup-1 already committed\"}''\<rparr>,
            Some ''session exists: Session dup-1 already committed''), demo_l1db_committed) \<and>
   handleL1API demo_lib 100 (demo_l1sr demo_l1env) (demo_commit_request Background) demo_l1db_committed =
     Some (Returns \<lparr>wStatus = 422,
                    wBody = ErrorJSON ''Failed to generate response: session exists: Session dup-1 already committed''\<rparr>,
           demo_l1db_committed)"
  using demo_handle_first [of Background] demo_handler_second demo_handle_second [of Background]
  by (intro conjI)

lemma save_session_keeps: "iID s \<in> iID ` set (save_session s rows)"
  by (auto simp: save_session_def)

lemma ReceiveShardCommit_consensus_error:
  assumes nofault: "db_fault env \<notin> {Some 1, Some 2, Some 3, Some 4}"
    and shard: "find (\<lambda>h. hShardID h = ShardID req) (shards db) = Some shard"
    and data: "marshal_session_data env (SessionData req) = Inr sessionData"
    and fresh: "SessionID req \<notin> iID ` set (index_sessions db)"
    and c: "RunConsensus env Background req = Some (Inl e)"
    and session: "session = \<lparr>iID = SessionID req, iShardID = ShardID req,
        iClientGroup = ClientGroup req, iOperatorID = OperatorID req, iStatus = ''committed'',
        iIsCommitted = True, iTxHash = None, iSessionData = sessionData\<rparr>"
  shows "ReceiveShardCommit env db req =
     Some (Inl e,
       if db_fault env = Some 5 then db\<lparr>index_sessions := index_sessions db @ [session]\<rparr>
       else db\<lparr>index_sessions :=
                 filter (\<lambda>s. iID s \<noteq> SessionID req) (index_sessions db @ [session])\<rparr>)"
  using nofault shard data fresh c unfolding session
  by (simp add: ReceiveShardCommit_def Let_def)

lemma rollback_removes_row:
  fixes db :: L1DB
  assumes fresh: "SessionID req \<notin> iID ` set (index_sessions db)"
    and s: "iID session = SessionID req"
    and db2: "db2 = db\<lparr>index_sessions :=
                filter (\<lambda>s. iID s \<noteq> SessionID req) (index_sessions db @ [session])\<rparr>"
  shows "index_sessions db2 = index_sessions db \<and>
      SessionID req \<notin> iID ` set (index_sessions db2) \<and>
      SessionID req \<notin> iID ` set (GetSessionsByShard db2 (ShardID req)) \<and>
      SessionID req \<notin> iID ` set (GetSessionsByClientGroup db2 (ClientGroup req))"
proof -
  have "filter (\<lambda>s. iID s \<noteq> SessionID req) (index_sessions db) = index_sessions db"
    using fresh by (auto simp: filter_id_conv image_iff)
  then have rows: "index_sessions db2 = index_sessions db"
    by (simp add: db2 s)
  have "set (GetSessionsByShard db2 (ShardID req)) \<subseteq> set (index_sessions db)"
    "set (GetSessionsByClientGroup db2 (ClientGroup req)) \<subseteq> set (index_sessions db)"
    unfolding GetSessionsByShard_def GetSessionsByClientGroup_def rows by simp_all
  with fresh have "SessionID req \<notin> iID ` set (GetSessionsByShard db2 (ShardID req))"
    "SessionID req \<notin> iID ` set (GetSessionsByClientGroup db2 (ClientGroup req))"
    by blast+
  with rows fresh show ?thesis by simp
qed

lemma failed_rollback_keeps_row:
  fixes db :: L1DB
  assumes s: "iID session = SessionID req" "iShardID session = ShardID req"
      "iClientGroup session = ClientGroup req"
    and db1: "db1 = db\<lparr>index_sessions := index_sessions db @ [session]\<rparr>"
  shows "SessionID req \<in> iID ` set (index_sessions db1) \<and>
      SessionID req \<in> iID ` set (GetSessionsByShard db1 (ShardID req)) \<and>
      SessionID req \<in> iID ` set (GetSessionsByClientGroup db1 (ClientGroup req))"
proof -
  have "session \<in> set (index_sessions db1)"
    "session \<in> set (GetSessionsByShard db1 (ShardID req))"
    "session \<in> set (GetSessionsByClientGroup db1 (ClientGroup req))"
    unfolding GetSessionsByShard_def GetSessionsByClientGroup_def by (simp_all add: db1 s)
  then have "iID session \<in> iID ` set (index_sessions db1)"
    "iID session \<in> iID ` set (GetSessionsByShard db1 (ShardID req))"
    "iID session \<in> iID ` set (GetSessionsByClientGroup db1 (ClientGroup req))"
    by blast+
  then show ?thesis unfolding s by (intro conjI)
qed

text \<open>
  Claim C4, as amended. For a request that is admitted (no fault up to the commit of the
  insertion, the shard registered, the session data serializable, no index row for the
  session yet): when the consensus adapter returns an error, \<open>ReceiveShardCommit\<close> returns
  that error; if the deletion of the row succeeds, the database it leaves has the index
  rows it had before the insertion, so no row for the session, and the queries by shard
  and by client group find none; if the deletion fails, the row is still there. When the
  adapter returns a result, the row is still there, whatever happens to the later
  statements; and \<open>ReceiveShardCommit\<close> returns exactly when the adapter does.
\<close>

theorem C4_index_row_rollback:
  assumes nofault: "db_fault env \<notin> {Some 1, Some 2, Some 3, Some 4}"
    and shard: "find (\<lambda>h. hShardID h = ShardID req) (shards db) = Some shard"
    and data: "marshal_session_data env (SessionData req) = Inr sessionData"
    and fresh: "SessionID req \<notin> iID ` set (index_sessions db)"
  shows "(\<forall>e. RunConsensus env Background req = Some (Inl e) \<longrightarrow>
            (\<exists>db'. ReceiveShardCommit env db req = Some (Inl e, db') \<and>
                   (db_fault env \<noteq> Some 5 \<longrightarrow>
                      index_sessions db' = index_sessions db \<and>
                      SessionID req \<notin> iID ` set (index_sessions db') \<and>
                      SessionID req \<notin> iID ` set (GetSessionsByShard db' (ShardID req)) \<and>
                      SessionID req \<notin> iID ` set (GetSessionsByClientGroup db' (ClientGroup req))) \<and>
                   (db_fault env = Some 5 \<longrightarrow>
                      SessionID req \<in> iID ` set (index_sessions db') \<and>
                      SessionID req \<in> iID ` set (GetSessionsByShard db' (ShardID req)) \<and>
                      SessionID req \<in> iID ` set (GetSessionsByClientGroup db' (ClientGroup req))))) \<and>
         (\<forall>r. RunConsensus env Background req = Some (Inr r) \<longrightarrow>
            (\<exists>res db'. ReceiveShardCommit env db req = Some (res, db') \<and>
                   SessionID req \<in> iID ` set (index_sessions db'))) \<and>
         (RunConsensus env Background req = None \<longrightarrow> ReceiveShardCommit env db req = None)"
proof (intro conjI allI impI)
  fix e
  assume c: "RunConsensus env Background req = Some (Inl e)"
  define session where "session = \<lparr>iID = SessionID req, iShardID = ShardID req,
      iClientGroup = ClientGroup req, iOperatorID = OperatorID req, iStatus = ''committed'',
      iIsCommitted = True, iTxHash = None, iSessionData = sessionData\<rparr>"
  define db1 where "db1 = db\<lparr>index_sessions := index_sessions db @ [session]\<rparr>"
  define db2 where "db2 = db\<lparr>index_sessions :=
      filter (\<lambda>s. iID s \<noteq> SessionID req) (index_sessions db @ [session])\<rparr>"
  have s: "iID session = SessionID req" "iShardID session = ShardID req"
    "iClientGroup session = ClientGroup req"
    by (simp_all add: session_def)
  have r: "ReceiveShardCommit env db req = Some (Inl e, if db_fault env = Some 5 then db1 else db2)"
    unfolding db1_def db2_def
    using nofault shard data fresh c session_def by (rule ReceiveShardCommit_consensus_error)
  note gone = rollback_removes_row [OF fresh s(1) db2_def]
  note stays = failed_rollback_keeps_row [OF s db1_def]
  show "\<exists>db'. ReceiveShardCommit env db req = Some (Inl e, db') \<and>
                   (db_fault env \<noteq> Some 5 \<longrightarrow>
                      index_sessions db' = index_sessions db \<and>
                      SessionID req \<notin> iID ` set (index_sessions db') \<and>
                      SessionID req \<notin> iID ` set (GetSessionsByShard db' (ShardID req)) \<and>
                      SessionID req \<notin> iID ` set (GetSessionsByClientGroup db' (ClientGroup req))) \<and>
                   (db_fault env = Some 5 \<longrightarrow>
                      SessionID req \<in> iID ` set (index_sessions db') \<and>
                      SessionID req \<in> iID ` set (GetSessionsByShard db' (ShardID req)) \<and>
                      SessionID req \<in> iID ` set (GetSessionsByClientGroup db' (ClientGroup req)))"
  proof (cases "db_fault env = Some 5")
    case True
    with r have "ReceiveShardCommit env db req = Some (Inl e, db1)" by simp
    with stays True show ?thesis by (intro exI [of _ db1]) simp
  next
    case False
    with r have "ReceiveShardCommit env db req = Some (Inl e, db2)" by simp
    with gone False fresh show ?thesis by (intro exI [of _ db2]) simp
  qed
next
  fix r
  assume c: "RunConsensus env Background req = Some (Inr r)"
  show "\<exists>res db'. ReceiveShardCommit env db req = Some (res, db') \<and>
                   SessionID req \<in> iID ` set (index_sessions db')"
    using nofault shard data fresh c save_session_keeps
    by (auto simp: ReceiveShardCommit_def Let_def save_session_def)
next
  assume "RunConsensus env Background req = None"
  then show "ReceiveShardCommit env db req = None"
    using nofault shard data fresh by (simp add: ReceiveShardCommit_def Let_def)
qed

text \<open>
  Claim C4 as stated fails when the deletion itself fails: the consensus engine rejects
  the commit of session \<open>dup-1\<close>, the statement that deletes the row returns an error that
  the code does not look at, and \<open>ReceiveShardCommit\<close> returns the consensus error while the
  row of \<open>dup-1\<close> is still there and the query by shard finds it.
\<close>

theorem C4_failed_delete_counterexample:
  "ReceiveShardCommit demo_l1env_delete_fails demo_l1db demo_dup =
     Some (Inl \<lparr>ErrCode = ''CONSENSUS_ERROR'', Message = ''Failed to commit to blockchain'',
                Detail = ''timed out waiting for tx to be included in a block''\<rparr>,
           demo_l1db\<lparr>index_sessions :=
             [\<lparr>iID = ''dup-1'', iShardID = ''shard-a'', iClientGroup = ''group-a'',
               iOperatorID = ''OPR-001'', iStatus = ''committed'', iIsCommitted = True,
               iTxHash = None, iSessionData = ''{}''\<rparr>]\<rparr>) \<and>
   GetSessionsByShard
     (demo_l1db\<lparr>index_sessions :=
             [\<lparr>iID = ''dup-1'', iShardID = ''shard-a'', iClientGroup = ''group-a'',
               iOperatorID = ''OPR-001'', iStatus = ''committed'', iIsCommitted = True,
               iTxHash = None, iSessionData = ''{}''\<rparr>]\<rparr>) ''shard-a'' =
     [\<lparr>iID = ''dup-1'', iShardID = ''shard-a'', iClientGroup = ''group-a'',
       iOperatorID = ''OPR-001'', iStatus = ''committed'', iIsCommitted = True,
       iTxHash = None, iSessionData = ''{}''\<rparr>]"
proof -
  have env: "db_fault demo_l1env_delete_fails = Some 5"
    "marshal_session_data demo_l1env_delete_fails d = Inr ''{}''" for d
    by (simp_all add: demo_l1env_delete_fails_def demo_l1env_rejecting_def demo_l1env_def)
  have c: "RunConsensus demo_l1env_delete_fails Background demo_dup =
      Some (Inl \<lparr>ErrCode = ''CONSENSUS_ERROR'', Message = ''Failed to commit to blockchain'',
                 Detail = ''timed out waiting for tx to be included in a block''\<rparr>)"
    by (simp add: RunConsensus_def demo_l1env_delete_fails_def demo_l1env_rejecting_def
        demo_l1env_def ctx_Done_def consensus_outcome_def)
  have shard: "find (\<lambda>h. hShardID h = ''shard-a'') (shards demo_l1db) =
      Some \<lparr>hShardID = ''shard-a'', hClientGroup = ''group-a'', hL2NodeID = ''l2-node-a'',
            hStatus = ''active''\<rparr>"
    "index_sessions demo_l1db = []"
    by (simp_all add: demo_l1db_def)
  have a: "ReceiveShardCommit demo_l1env_delete_fails demo_l1db demo_dup =
     Some (Inl \<lparr>ErrCode = ''CONSENSUS_ERROR'', Message = ''Failed to commit to blockchain'',
                Detail = ''timed out waiting for tx to be included in a block''\<rparr>,
           demo_l1db\<lparr>index_sessions :=
             [\<lparr>iID = ''dup-1'', iShardID = ''shard-a'', iClientGroup = ''group-a'',
               iOperatorID = ''OPR-001'', iStatus = ''committed'', iIsCommitted = True,
               iTxHash = None, iSessionData = ''{}''\<rparr>]\<rparr>)"
    by (simp add: ReceiveShardCommit_def env c shard demo_dup_fields Let_def)
  have b: "GetSessionsByShard
     (demo_l1db\<lparr>index_sessions :=
             [\<lparr>iID = ''dup-1'', iShardID = ''shard-a'', iClientGroup = ''group-a'',
               iOperatorID = ''OPR-001'', iStatus = ''committed'', iIsCommitted = True,
               iTxHash = None, iSessionData = ''{}''\<rparr>]\<rparr>) ''shard-a'' =
     [\<lparr>iID = ''dup-1'', iShardID = ''shard-a'', iClientGroup = ''group-a'',
       iOperatorID = ''OPR-001'', iStatus = ''committed'', iIsCommitted = True,
       iTxHash = None, iSessionData = ''{}''\<rparr>]"
    by (simp add: GetSessionsByShard_def)
  from a b show ?thesis ..
qed

theorem C4_index_row_rollback_witness:
  "db_fault demo_l1env_rejecting \<notin> {Some 1, Some 2, Some 3, Some 4} \<and>
   db_fault demo_l1env_rejecting \<noteq> Some 5 \<and>
   SessionID demo_dup \<notin> iID ` set (index_sessions demo_l1db) \<and>
   RunConsensus demo_l1env_rejecting Background demo_dup =
     Some (Inl \<lparr>ErrCode = ''CONSENSUS_ERROR'', Message = ''Failed to commit to blockchain'',
                Detail = ''timed out waiting for tx to be included in a block''\<rparr>) \<and>
   (\<exists>db'. ReceiveShardCommit demo_l1env_rejecting demo_l1db demo_dup =
            Some (Inl \<lparr>ErrCode = ''CONSENSUS_ERROR'', Message = ''Failed to commit to blockchain'',
                       Detail = ''timed out waiting for tx to be included in a block''\<rparr>, db') \<and>
          index_sessions db' = [] \<and>
          GetSessionsByShard db' ''shard-a'' = [])"
proof -
  let ?e = "\<lparr>ErrCode = ''CONSENSUS_ERROR'', Message = ''Failed to commit to blockchain'',
                Detail = ''timed out waiting for tx to be included in a block''\<rparr>"
  have nofault: "db_fault demo_l1env_rejecting \<notin> {Some 1, Some 2, Some 3, Some 4}"
    by (simp add: demo_l1env_rejecting_def demo_l1env_def)
  have shard: "find (\<lambda>h. hShardID h = ShardID demo_dup) (shards demo_l1db) =
      Some \<lparr>hShardID = ''shard-a'', hClientGroup = ''group-a'', hL2NodeID = ''l2-node-a'',
            hStatus = ''active''\<rparr>"
    by (simp add: demo_l1db_def demo_dup_fields)
  have data: "marshal_session_data demo_l1env_rejecting (SessionData demo_dup) = Inr ''{}''"
    by (simp add: demo_l1env_rejecting_def demo_l1env_def)
  have fresh: "SessionID demo_dup \<notin> iID ` set (index_sessions demo_l1db)"
    by (simp add: demo_l1db_def)
  have c: "RunConsensus demo_l1env_rejecting Background demo_dup = Some (Inl ?e)"
    by (simp add: RunConsensus_def demo_l1env_rejecting_def demo_l1env_def ctx_Done_def consensus_outcome_def)
  have del: "db_fault demo_l1env_rejecting \<noteq> Some 5"
    by (simp add: demo_l1env_rejecting_def demo_l1env_def)
  from C4_index_row_rollback [OF nofault shard data fresh] c del
  obtain db' where r: "ReceiveShardCommit demo_l1env_rejecting demo_l1db demo_dup = Some (Inl ?e, db')"
    and rows: "index_sessions db' = index_sessions demo_l1db"
    by blast
  from rows have "index_sessions db' = []" "GetSessionsByShard db' ''shard-a'' = []"
    by (simp_all add: demo_l1db_def GetSessionsByShard_def)
  with nofault del fresh c r show ?thesis by blast
qed

lemma consensus_outcome_not_timeout:
  "consensus_outcome result = Inl e \<Longrightarrow> ErrCode e = ''CONSENSUS_ERROR''"
  by (auto simp: consensus_outcome_def split: sum.splits if_splits)

lemma RunConsensus_Background:
  "marshal_request env payload = Inr payloadBytes \<Longrightarrow>
   RunConsensus env Background payload =
     map_option (\<lambda>(t, result). consensus_outcome result) (BroadcastTxCommit env Background payloadBytes)"
  by (auto simp: RunConsensus_def ctx_Done_def split: option.splits)

lemma RunConsensus_Background_error:
  assumes "RunConsensus env Background payload = Some (Inl e)"
  shows "ErrCode e = ''SERIALIZATION_ERROR'' \<or> ErrCode e = ''CONSENSUS_ERROR''"
proof (cases "marshal_request env payload")
  case (Inl err)
  with assms show ?thesis by (auto simp: RunConsensus_def)
next
  case (Inr b)
  with assms RunConsensus_Background [OF Inr] obtain t result
    where "consensus_outcome result = Inl e"
    by (auto split: option.splits)
  then show ?thesis by (simp add: consensus_outcome_not_timeout)
qed

lemma RunConsensus_timeout:
  assumes "marshal_request env payload = Inr payloadBytes"
    and "BroadcastTxCommit env (DoneAt d err) payloadBytes = None \<or>
         (\<exists>t r. BroadcastTxCommit env (DoneAt d err) payloadBytes = Some (t, r) \<and> d < t)"
  shows "RunConsensus env (DoneAt d err) payload =
         Some (Inl \<lparr>ErrCode = ''CONSENSUS_TIMEOUT'', Message = ''Consensus operation timed out'',
                    Detail = err\<rparr>)"
  using assms by (auto simp: RunConsensus_def ctx_Done_def ctx_Err_def)

lemma ReceiveShardCommit_error_codes:
  assumes "ReceiveShardCommit env db req = Some (Inl e, db')"
  shows "ErrCode e \<in> {''DATABASE_ERROR'', ''SHARD_NOT_FOUND'', ''SERIALIZATION_ERROR'',
                       ''SESSION_EXISTS'', ''CONSENSUS_ERROR''}"
proof (cases "RunConsensus env Background req")
  case None
  with assms show ?thesis
    by (auto simp: ReceiveShardCommit_def Let_def split: if_splits option.splits sum.splits)
next
  case (Some c)
  show ?thesis
  proof (cases c)
    case (Inl ce)
    with Some have "ErrCode ce = ''SERIALIZATION_ERROR'' \<or> ErrCode ce = ''CONSENSUS_ERROR''"
      by (simp add: RunConsensus_Background_error)
    with assms Some Inl show ?thesis
      by (auto simp: ReceiveShardCommit_def Let_def split: if_splits option.splits sum.splits)
  next
    case (Inr cr)
    with assms Some show ?thesis
      by (auto simp: ReceiveShardCommit_def Let_def split: if_splits option.splits sum.splits)
  qed
qed

lemma Convert_ignores_context:
  "ConvertHttpRequestToConsensusRequest lib now (r\<lparr>hContext := c\<rparr>) requestID =
   ConvertHttpRequestToConsensusRequest lib now r requestID"
  by (simp add: ConvertHttpRequestToConsensusRequest_def split: sum.splits)

lemma handleL1API_ignores_context:
  "handleL1API lib now sr (r\<lparr>hContext := c\<rparr>) db = handleL1API lib now sr r db"
  by (auto simp: handleL1API_def Convert_ignores_context split: sum.splits option.splits prod.splits)

text \<open>
  Claim C5, as amended. \<open>RunConsensus\<close> honors the context that it is given: when that
  context is done before the broadcast returns, or the broadcast never returns, it returns
  the error \<open>CONSENSUS_TIMEOUT\<close> with the context's error text. The commit path gives it the
  background context: there \<open>RunConsensus\<close> returns what the broadcast returns, when it
  returns; \<open>ReceiveShardCommit\<close> never returns the error \<open>CONSENSUS_TIMEOUT\<close>; and the answer
  of \<open>handleL1API\<close> does not depend on the context of the HTTP request.
\<close>

theorem C5_consensus_wait:
  "(marshal_request env payload = Inr payloadBytes \<and>
      (BroadcastTxCommit env (DoneAt d err) payloadBytes = None \<or>
       (\<exists>t r. BroadcastTxCommit env (DoneAt d err) payloadBytes = Some (t, r) \<and> d < t)) \<longrightarrow>
    RunConsensus env (DoneAt d err) payload =
      Some (Inl \<lparr>ErrCode = ''CONSENSUS_TIMEOUT'', Message = ''Consensus operation timed out'',
                 Detail = err\<rparr>)) \<and>
   (marshal_request env payload = Inr payloadBytes \<longrightarrow>
    RunConsensus env Background payload =
      map_option (\<lambda>(t, result). consensus_outcome result)
        (BroadcastTxCommit env Background payloadBytes)) \<and>
   (\<forall>e db'. ReceiveShardCommit env db req = Some (Inl e, db') \<longrightarrow> ErrCode e \<noteq> ''CONSENSUS_TIMEOUT'') \<and>
   handleL1API lib now sr (r\<lparr>hContext := c\<rparr>) db = handleL1API lib now sr r db"
proof -
  have a: "marshal_request env payload = Inr payloadBytes \<and>
      (BroadcastTxCommit env (DoneAt d err) payloadBytes = None \<or>
       (\<exists>t r. BroadcastTxCommit env (DoneAt d err) payloadBytes = Some (t, r) \<and> d < t)) \<longrightarrow>
    RunConsensus env (DoneAt d err) payload =
      Some (Inl \<lparr>ErrCode = ''CONSENSUS_TIMEOUT'', Message = ''Consensus operation timed out'',
                 Detail = err\<rparr>)"
    using RunConsensus_timeout [of env payload payloadBytes d err] by blast
  have b: "marshal_request env payload = Inr payloadBytes \<longrightarrow>
    RunConsensus env Background payload =
      map_option (\<lambda>(t, result). consensus_outcome result)
        (BroadcastTxCommit env Background payloadBytes)"
    using RunConsensus_Background [of env payload payloadBytes] by blast
  have c: "\<forall>e db'. ReceiveShardCommit env db req = Some (Inl e, db') \<longrightarrow> ErrCode e \<noteq> ''CONSENSUS_TIMEOUT''"
  proof (intro allI impI)
    fix e db'
    assume "ReceiveShardCommit env db req = Some (Inl e, db')"
    from ReceiveShardCommit_error_codes [OF this]
    show "ErrCode e \<noteq> ''CONSENSUS_TIMEOUT''" by auto
  qed
  from a b c handleL1API_ignores_context [where lib = lib and now = now and sr = sr and r = r and c = c and db = db] show ?thesis
    by (intro conjI)
qed

text \<open>
  Claim C5 as stated fails. A commit request whose context is done at time 1, while the
  broadcast returns at time 5: the adapter waits for the broadcast and the request is
  answered 202, not with a timeout. And when the broadcast never returns, the commit does
  not return either, whatever the deadline of the request.
\<close>

theorem C5_request_deadline_ignored_counterexample:
  "BroadcastTxCommit demo_l1env Background [1] =
     Some (5, Inr \<lparr>rCheckTxCode = 0, rHash = [0xAB], rHeight = 3\<rparr>) \<and>
   (1 :: nat) < 5 \<and>
   handleL1API demo_lib 100 (demo_l1sr demo_l1env)
     (demo_commit_request (DoneAt 1 ''context deadline exceeded'')) demo_l1db =
     Some (Returns \<lparr>wStatus = 202,
                    wBody = Wrapped (''{\"message\": \"Shard commit processed successfully\",\"tx_hash\": \"ab\",''
                                     @ ''\"session_id\": \"dup-1\",\"shard_id\": \"shard-a\",\"block_height\": 3}'')
                              ''confirmed'' ''ab''\<rparr>, demo_l1db_committed) \<and>
   BroadcastTxCommit demo_l1env_never Background [1] = None \<and>
   ReceiveShardCommit demo_l1env_never demo_l1db demo_dup = None"
proof -
  have a: "BroadcastTxCommit demo_l1env Background [1] =
     Some (5, Inr \<lparr>rCheckTxCode = 0, rHash = [0xAB], rHeight = 3\<rparr>)"
    by (simp add: demo_l1env_def)
  have b: "BroadcastTxCommit demo_l1env_never Background [1] = None"
    by (simp add: demo_l1env_never_def demo_l1env_def)
  have env: "db_fault demo_l1env_never = None" "marshal_session_data demo_l1env_never d = Inr ''{}''" for d
    by (simp_all add: demo_l1env_never_def demo_l1env_def)
  have "RunConsensus demo_l1env_never Background demo_dup = None"
    by (simp add: RunConsensus_def demo_l1env_never_def demo_l1env_def ctx_Done_def)
  then have c: "ReceiveShardCommit demo_l1env_never demo_l1db demo_dup = None"
    by (simp add: ReceiveShardCommit_def env Let_def demo_l1db_def demo_dup_fields)
  from a b c demo_handle_first [of "DoneAt 1 ''context deadline exceeded''"] show ?thesis
    by simp
qed

theorem C5_consensus_wait_witness:
  "marshal_request demo_l1env demo_dup = Inr [1] \<and>
   BroadcastTxCommit demo_l1env (DoneAt 1 ''context deadline exceeded'') [1] =
     Some (5, Inr \<lparr>rCheckTxCode = 0, rHash = [0xAB], rHeight = 3\<rparr>) \<and>
   (1 :: nat) < 5 \<and>
   RunConsensus demo_l1env (DoneAt 1 ''context deadline exceeded'') demo_dup =
     Some (Inl \<lparr>ErrCode = ''CONSENSUS_TIMEOUT'', Message = ''Consensus operation timed out'',
                Detail = ''context deadline exceeded''\<rparr>) \<and>
   RunConsensus demo_l1env Background demo_dup =
     Some (Inr \<lparr>cTxHash = ''ab'', cBlockHeight = 3, cCode = 0\<rparr>)"
proof -
  have m: "marshal_request demo_l1env demo_dup = Inr [1]"
    by (simp add: demo_l1env_def)
  have b: "BroadcastTxCommit demo_l1env (DoneAt 1 ''context deadline exceeded'') [1] =
     Some (5, Inr \<lparr>rCheckTxCode = 0, rHash = [0xAB], rHeight = 3\<rparr>)"
    by (simp add: demo_l1env_def)
  have lt: "(1 :: nat) < 5" by simp
  have "RunConsensus demo_l1env (DoneAt 1 ''context deadline exceeded'') demo_dup =
     Some (Inl \<lparr>ErrCode = ''CONSENSUS_TIMEOUT'', Message = ''Consensus operation timed out'',
                Detail = ''context deadline exceeded''\<rparr>)"
    using C5_consensus_wait [of demo_l1env demo_dup "[1]" 1 "''context deadline exceeded''",
        THEN conjunct1] m b lt by blast
  with m b lt demo_consensus show ?thesis by (intro conjI)
qed

text \<open>
  The duplicate in general: whenever the commit route is registered and the index row of
  the session exists, the request is answered 422.
\<close>

lemma duplicate_commit_unprocessable:
  assumes route: "L1_GetHandlerForPath sr (hMethod r) (hURLPath r) =
                    Some (ReceiveShardCommitHandler unmarshal env)"
    and id: "rand_Read lib = Inr rnd"
    and body: "hBody r = Inr raw"
    and parsed: "unmarshal (to_bytes (compactJSON lib (TrimSpace lib raw))) = Inr commitReq"
    and fields: "ShardID commitReq \<noteq> []" "SessionID commitReq \<noteq> []" "ClientGroup commitReq \<noteq> []"
    and nofault: "db_fault env \<notin> {Some 1, Some 2, Some 3}"
    and shard: "find (\<lambda>h. hShardID h = ShardID commitReq) (shards db) = Some shard"
    and data: "marshal_session_data env (SessionData commitReq) = Inr sessionData"
    and exists: "SessionID commitReq \<in> iID ` set (index_sessions db)"
  shows "handleL1API lib now sr r db =
           Some (Returns \<lparr>wStatus = 422,
                          wBody = ErrorJSON (''Failed to generate response: session exists: Session ''
                                             @ SessionID commitReq @ '' already committed'')\<rparr>, db)"
proof -
  have rsc: "ReceiveShardCommit env db commitReq =
      Some (Inl \<lparr>ErrCode = ''SESSION_EXISTS'', Message = ''Session already exists'',
                 Detail = ''Session '' @ SessionID commitReq @ '' already committed''\<rparr>, db)"
    using nofault shard data exists by (simp add: ReceiveShardCommit_def Let_def)
  have conv: "ConvertHttpRequestToConsensusRequest lib now r (EncodeToString rnd) =
      Inr \<lparr>Method = hMethod r, Path = hURLPath r,
           ReqBody = compactJSON lib (TrimSpace lib raw),
           ReqHeaders = (\<lambda>name. case hHeader r name of
                               None \<Rightarrow> None | Some [] \<Rightarrow> None | Some (v # vs) \<Rightarrow> Some v),
           RemoteAddr = hRemoteAddr r, RequestID = EncodeToString rnd, ReqTimestamp = now\<rparr>"
    by (simp add: ConvertHttpRequestToConsensusRequest_def body)
  show ?thesis
    using fields
    by (simp add: handleL1API_def generateRequestID_def id conv L1_GenerateResponse_def route
        ReceiveShardCommitHandler_def parsed rsc)
qed

end
